theory Spec2Isabelle
  imports Main "HOL-Library.Word" "HOL-Library.Monad_Syntax"
begin

section \<open>Build state and status ordinals\<close>

text \<open>
  \<^verbatim>\<open>type BuildStatus int\<close> and \<^verbatim>\<open>type BuildState int\<close> with their \<^verbatim>\<open>iota\<close>
  constants (metrics.go, lines 233-248).
\<close>

type_synonym BuildStatus = int
type_synonym BuildState = int

definition BuildStateUnknown :: BuildState where "BuildStateUnknown = 0"
definition BuildQueued :: BuildState where "BuildQueued = 1"
definition BuildFinished :: BuildState where "BuildFinished = 2"
definition BuildRunning :: BuildState where "BuildRunning = 3"
definition BuildDeleted :: BuildState where "BuildDeleted = 4"

definition BuildStatusUnknown :: BuildStatus where "BuildStatusUnknown = 0"
definition BuildSuccess :: BuildStatus where "BuildSuccess = 1"
definition BuildFailure :: BuildStatus where "BuildFailure = 2"

text \<open>The two \<^verbatim>\<open>switch\<close> statements over the raw string, first matching case first.\<close>

definition ParseBuildState :: "string \<Rightarrow> BuildState" where
  "ParseBuildState s =
     (if s = ''queued'' then BuildQueued
      else if s = ''finished'' then BuildFinished
      else if s = ''running'' then BuildRunning
      else if s = ''deleted'' then BuildDeleted
      else BuildStateUnknown)"

definition ParseBuildStatus :: "string \<Rightarrow> BuildStatus" where
  "ParseBuildStatus s =
     (if s = ''SUCCESS'' then BuildSuccess
      else if s = ''FAILURE'' then BuildFailure
      else BuildStatusUnknown)"

section \<open>Metric descriptors and samples\<close>

text \<open>
  A \<^verbatim>\<open>*prometheus.Desc\<close> as built by \<^verbatim>\<open>prometheus.NewDesc(fqName, help, variableLabels,
  constLabels)\<close>; the constant labels are empty everywhere in the repository.
\<close>

record Desc =
  fqName :: string
  helpText :: string
  variableLabels :: "string list"

definition NewDesc :: "string \<Rightarrow> string \<Rightarrow> string list \<Rightarrow> Desc" where
  "NewDesc n h ls = \<lparr> fqName = n, helpText = h, variableLabels = ls \<rparr>"

text \<open>
  \<^verbatim>\<open>float64(x)\<close> for an integer \<open>x\<close>: the nearest number with a significand of 53
  bits, a tie going to the even significand. The result is again an integer; it is
  \<open>x\<close> itself when \<open>x\<close> has at most 53 bits.
\<close>

fun bitlen :: "nat \<Rightarrow> nat" where
  "bitlen n = (if n = 0 then 0 else Suc (bitlen (n div 2)))"

declare bitlen.simps [simp del]

definition float64 :: "int \<Rightarrow> int" where
  "float64 x =
     (let n = nat \<bar>x\<bar>;
          e = bitlen n - 53;
          q = n div 2 ^ e;
          r = n mod 2 ^ e;
          m = (if 2 * r > 2 ^ e \<or> (2 * r = 2 ^ e \<and> odd q) then q + 1 else q)
      in (if x < 0 then - 1 else 1) * int (m * 2 ^ e))"

text \<open>
  A gauge sample as built by \<^verbatim>\<open>prometheus.MustNewConstMetric(desc, GaugeValue, v, labels...)\<close>.
  Every value the collectors emit is the \<^verbatim>\<open>float64\<close> conversion of an integer, so the
  value of a sample is an integer. The build gauges convert the Unix seconds of a parsed
  instant (a year of four digits) or an ordinal, which have fewer than 53 bits and are
  kept as they are; the agent's build identifier and the project counts go through
  \<open>float64\<close>.
\<close>

record Metric =
  desc :: Desc
  gauge :: int
  labelValues :: "string list"

definition MustNewConstMetric :: "Desc \<Rightarrow> int \<Rightarrow> string list \<Rightarrow> Metric" where
  "MustNewConstMetric d v ls = \<lparr> desc = d, gauge = v, labelValues = ls \<rparr>"

subsection \<open>The collector registered by \<^verbatim>\<open>main\<close>\<close>

record TeamCityCollector =
  projects :: Desc
  buildTypes :: Desc
  buildStartTime :: Desc
  buildFinishTime :: Desc
  buildState :: Desc
  buildStatus :: Desc

definition build_labels :: "string list" where
  "build_labels = [''project_id'', ''build_type_id'', ''build_id'']"

definition NewTeamCityCollector :: TeamCityCollector where
  "NewTeamCityCollector =
     \<lparr> projects = NewDesc ''teamcity_projects''
          ''The total number of subprojects for a TeamCity project.'' [''project_id''],
       buildTypes = NewDesc ''teamcity_project_build_types''
          ''The total number of build types for a TeamCity project.'' [''project_id''],
       buildStartTime = NewDesc ''teamcity_build_start_time''
          ''The start time of a TeamCity build job.'' build_labels,
       buildFinishTime = NewDesc ''teamcity_build_finish_time''
          ''The finish time of a TeamCity build job.'' build_labels,
       buildState = NewDesc ''teamcity_build_state''
          ''The state of a TeamCity build job.'' build_labels,
       buildStatus = NewDesc ''teamcity_build_status''
          ''The status of a TeamCity build job.'' build_labels \<rparr>"

text \<open>
  \<^verbatim>\<open>func (collector TeamCityCollector) Describe(ch chan<- *prometheus.Desc) {}\<close>
  (metrics.go, line 88): the body is empty. The channel is the list of descriptors sent,
  in order.
\<close>

definition Describe :: "TeamCityCollector \<Rightarrow> Desc list" where
  "Describe collector = []"

text \<open>The descriptor set the collector holds, in field order.\<close>

definition descriptor_set :: "TeamCityCollector \<Rightarrow> Desc list" where
  "descriptor_set c =
     [projects c, buildTypes c, buildStartTime c, buildFinishTime c, buildState c, buildStatus c]"

subsection \<open>The sibling collectors\<close>

record TeamCityBuildsCollector =
  b_buildStartTime :: Desc
  b_buildFinishTime :: Desc
  b_buildState :: Desc
  b_buildStatus :: Desc

definition NewTeamCityBuildsCollector :: TeamCityBuildsCollector where
  "NewTeamCityBuildsCollector =
     \<lparr> b_buildStartTime = NewDesc ''teamcity_build_start_time''
          ''The start time of a TeamCity build job.'' build_labels,
       b_buildFinishTime = NewDesc ''teamcity_build_finish_time''
          ''The finish time of a TeamCity build job.'' build_labels,
       b_buildState = NewDesc ''teamcity_build_state''
          ''The state of a TeamCity build job.'' build_labels,
       b_buildStatus = NewDesc ''teamcity_build_status''
          ''The status of a TeamCity build job.'' build_labels \<rparr>"

definition Builds_Describe :: "TeamCityBuildsCollector \<Rightarrow> Desc list" where
  "Builds_Describe collector =
     [b_buildFinishTime collector, b_buildStartTime collector,
      b_buildState collector, b_buildStatus collector]"

record TeamCityProjectsCollector =
  p_buildTypes :: Desc
  p_projects :: Desc

definition NewTeamCityProjectsCollector :: TeamCityProjectsCollector where
  "NewTeamCityProjectsCollector =
     \<lparr> p_buildTypes = NewDesc ''teamcity_project_build_types_total''
          ''The total number of build types for a TeamCity project.'' [''project_id''],
       p_projects = NewDesc ''teamcity_projects_total''
          ''The total number of subprojects for a TeamCity project.'' [''project_id''] \<rparr>"

definition Projects_Describe :: "TeamCityProjectsCollector \<Rightarrow> Desc list" where
  "Projects_Describe collector = [p_buildTypes collector, p_projects collector]"

record TeamCityAgentCollector =
  agentAuthorized :: Desc
  agentConnected :: Desc
  agentEnabled :: Desc
  agentCurrentBuildId :: Desc

definition agent_labels :: "string list" where
  "agent_labels = [''agent_id'', ''agent_name'']"

definition NewTeamCityAgentCollector :: TeamCityAgentCollector where
  "NewTeamCityAgentCollector =
     \<lparr> agentAuthorized = NewDesc ''teamcity_agent_authorized''
          ''The authorized status of a TeamCity agent.'' agent_labels,
       agentConnected = NewDesc ''teamcity_agent_connected''
          ''The connected status of a TeamCity agent.'' agent_labels,
       agentEnabled = NewDesc ''teamcity_agent_enabled''
          ''The enabled status of a TeamCity agent.'' agent_labels,
       agentCurrentBuildId = NewDesc ''teamcity_agent_current_build_id''
          ''The build ID of the current build of a TeamCity agent.'' agent_labels \<rparr>"

definition Agent_Describe :: "TeamCityAgentCollector \<Rightarrow> Desc list" where
  "Agent_Describe collector =
     [agentAuthorized collector, agentConnected collector,
      agentEnabled collector, agentCurrentBuildId collector]"

section \<open>Decimal numerals\<close>

text \<open>
  The decimal digits of an unsigned number: \<^verbatim>\<open>fmt.Sprintf("%d", n)\<close> for an unsigned
  \<open>n\<close>, and the digits \<^verbatim>\<open>appendInt\<close> of package \<^verbatim>\<open>time\<close> writes.
\<close>

fun utoa :: "nat \<Rightarrow> string" where
  "utoa n = (if n < 10 then [char_of (48 + n)] else utoa (n div 10) @ [char_of (48 + n mod 10)])"

declare utoa.simps [simp del]

section \<open>The temporal codec\<close>

subsection \<open>Instants\<close>

text \<open>
  A \<^verbatim>\<open>time.Time\<close> is an instant with a zone: seconds since the Unix epoch, the
  nanoseconds within the second, and the zone's offset east of UTC in seconds.
  \<^verbatim>\<open>Time{}\<close> is January 1 of year 1, 00:00:00 UTC.
\<close>

record Time =
  unixSec :: int
  nanos :: int
  offsetSec :: int

definition zeroTime :: Time where
  "zeroTime = \<lparr> unixSec = - 62135596800, nanos = 0, offsetSec = 0 \<rparr>"

definition Unix :: "Time \<Rightarrow> int" where
  "Unix t = unixSec t"

subsection \<open>The proleptic Gregorian calendar of package \<^verbatim>\<open>time\<close>\<close>

definition isLeap :: "int \<Rightarrow> bool" where
  "isLeap year = (year mod 4 = 0 \<and> (year mod 100 \<noteq> 0 \<or> year mod 400 = 0))"

text \<open>\<^verbatim>\<open>daysBefore[m]\<close>: the days of a non-leap year before month \<open>m + 1\<close>.\<close>

definition daysBefore :: "int \<Rightarrow> int" where
  "daysBefore m = [0, 31, 59, 90, 120, 151, 181, 212, 243, 273, 304, 334, 365] ! nat m"

definition daysIn :: "int \<Rightarrow> int \<Rightarrow> int" where
  "daysIn m year =
     (if m = 2 \<and> isLeap year then 29 else daysBefore m - daysBefore (m - 1))"

text \<open>The days from January 1 of year 1 to January 1 of \<open>year\<close>.\<close>

definition daysBeforeYear :: "int \<Rightarrow> int" where
  "daysBeforeYear year =
     365 * (year - 1) + (year - 1) div 4 - (year - 1) div 100 + (year - 1) div 400"

text \<open>
  \<^verbatim>\<open>Date(year, month, day, hour, min, sec, nsec, UTC)\<close> on fields that are in range
  (the parser has checked them), as seconds since the Unix epoch: the days before the
  year, before the month (one more from March of a leap year on) and before the day.
  January 1 of 1970 is day 719162 counted from January 1 of year 1.
\<close>

definition daysSinceUnixEpoch :: "int \<Rightarrow> int \<Rightarrow> int \<Rightarrow> int" where
  "daysSinceUnixEpoch year month day =
     daysBeforeYear year + daysBefore (month - 1)
       + (if isLeap year \<and> 3 \<le> month then 1 else 0) + (day - 1) - 719162"

definition Date :: "int \<Rightarrow> int \<Rightarrow> int \<Rightarrow> int \<Rightarrow> int \<Rightarrow> int \<Rightarrow> int \<Rightarrow> int \<Rightarrow> Time" where
  "Date year month day hh mi ss nsec off =
     \<lparr> unixSec = daysSinceUnixEpoch year month day * 86400 + hh * 3600 + mi * 60 + ss - off,
       nanos = nsec, offsetSec = off \<rparr>"

subsection \<open>Scanning helpers of \<^verbatim>\<open>time.Parse\<close>\<close>

definition digitChar :: "char \<Rightarrow> bool" where
  "digitChar c = (48 \<le> (of_char c :: nat) \<and> (of_char c :: nat) \<le> 57)"

definition digitVal :: "char \<Rightarrow> int" where
  "digitVal c = int (of_char c) - 48"

definition isDigit :: "string \<Rightarrow> nat \<Rightarrow> bool" where
  "isDigit s i = (i < length s \<and> digitChar (s ! i))"

text \<open>
  \<^verbatim>\<open>getnum(s, fixed)\<close>: one or two leading digits; with \<open>fixed\<close>, exactly two.
  \<open>None\<close> is \<^verbatim>\<open>errBad\<close>.
\<close>

definition getnum :: "string \<Rightarrow> bool \<Rightarrow> (int \<times> string) option" where
  "getnum s fixed =
     (if \<not> isDigit s 0 then None
      else if \<not> isDigit s 1 then (if fixed then None else Some (digitVal (s ! 0), drop 1 s))
      else Some (digitVal (s ! 0) * 10 + digitVal (s ! 1), drop 2 s))"

text \<open>
  \<^verbatim>\<open>leadingInt\<close> consumes the leading digits. Its overflow error needs nineteen digits;
  the parser hands it at most nine.
\<close>

fun leadingInt :: "int \<Rightarrow> string \<Rightarrow> int \<times> string" where
  "leadingInt x [] = (x, [])"
| "leadingInt x (c # cs) = (if digitChar c then leadingInt (x * 10 + digitVal c) cs else (x, c # cs))"

text \<open>\<^verbatim>\<open>atoi\<close>: an optional sign, then digits only. \<open>None\<close> is \<^verbatim>\<open>errAtoi\<close>.\<close>

definition atoi :: "string \<Rightarrow> int option" where
  "atoi s =
     (let neg = (s \<noteq> [] \<and> hd s = CHR ''-'');
          s' = (if s \<noteq> [] \<and> (hd s = CHR ''-'' \<or> hd s = CHR ''+'') then tl s else s);
          (q, rem) = leadingInt 0 s'
      in if rem \<noteq> [] then None else Some (if neg then - q else q))"

definition commaOrPeriod :: "char \<Rightarrow> bool" where
  "commaOrPeriod c = (c = CHR ''.'' \<or> c = CHR '','')"

text \<open>
  \<^verbatim>\<open>parseNanoseconds(value, nbytes)\<close>, called with \<open>value\<close> starting with a comma or
  period and \<open>nbytes\<close> counting it and the digits after it: at most nine digits are
  read and scaled to nanoseconds. \<open>None\<close> is an error.
\<close>

definition parseNanoseconds :: "string \<Rightarrow> nat \<Rightarrow> int option" where
  "parseNanoseconds v nbytes =
     (if v = [] \<or> \<not> commaOrPeriod (hd v) then None
      else let nb = (if nbytes > 10 then 10 else nbytes) in
        case atoi (take (nb - 1) (drop 1 v)) of
          None \<Rightarrow> None
        | Some ns \<Rightarrow> if ns < 0 \<or> 1000000000 \<le> ns then None else Some (ns * 10 ^ (10 - nb)))"

subsection \<open>\<^verbatim>\<open>time.Parse\<close> on the layout \<^verbatim>\<open>20060102T150405-0700\<close>\<close>

text \<open>
  The layout splits into the chunks \<^verbatim>\<open>2006\<close> (four-digit year), \<^verbatim>\<open>01\<close> (two-digit
  month), \<^verbatim>\<open>02\<close> (two-digit day), the literal \<^verbatim>\<open>T\<close>, \<^verbatim>\<open>15\<close> (hour), \<^verbatim>\<open>04\<close>
  (two-digit minute), \<^verbatim>\<open>05\<close> (two-digit second) and \<^verbatim>\<open>-0700\<close> (numeric zone).
  Each function below is the parser's case for one chunk (Go 1.19, the version the
  Dockerfile builds with); it returns the field and the rest of the input, or \<open>None\<close>
  where the parser returns a \<^verbatim>\<open>ParseError\<close>.
\<close>

definition parseLongYear :: "string \<Rightarrow> (int \<times> string) option" where
  "parseLongYear v =
     (if length v < 4 \<or> \<not> isDigit v 0 then None
      else case atoi (take 4 v) of None \<Rightarrow> None | Some y \<Rightarrow> Some (y, drop 4 v))"

definition parseZeroMonth :: "string \<Rightarrow> (int \<times> string) option" where
  "parseZeroMonth v =
     (case getnum v True of None \<Rightarrow> None
      | Some (m, rest) \<Rightarrow> if m \<le> 0 \<or> 12 < m then None else Some (m, rest))"

text \<open>Any two-digit day passes here; the day is checked against the month at the end.\<close>

definition parseZeroDay :: "string \<Rightarrow> (int \<times> string) option" where
  "parseZeroDay v = getnum v True"

text \<open>\<^verbatim>\<open>skip(value, "T")\<close>.\<close>

definition skipT :: "string \<Rightarrow> string option" where
  "skipT v = (if v = [] \<or> hd v \<noteq> CHR ''T'' then None else Some (tl v))"

definition parseHour :: "string \<Rightarrow> (int \<times> string) option" where
  "parseHour v =
     (case getnum v False of None \<Rightarrow> None
      | Some (h, rest) \<Rightarrow> if h < 0 \<or> 24 \<le> h then None else Some (h, rest))"

definition parseZeroMinute :: "string \<Rightarrow> (int \<times> string) option" where
  "parseZeroMinute v =
     (case getnum v True of None \<Rightarrow> None
      | Some (m, rest) \<Rightarrow> if m < 0 \<or> 60 \<le> m then None else Some (m, rest))"

text \<open>
  The second, and the parser's special case after it: a fractional second in the
  input that the layout does not have is read and kept as nanoseconds.
\<close>

definition parseZeroSecond :: "string \<Rightarrow> (int \<times> int \<times> string) option" where
  "parseZeroSecond v =
     (case getnum v True of None \<Rightarrow> None
      | Some (s, rest) \<Rightarrow>
          if s < 0 \<or> 60 \<le> s then None
          else if length rest \<ge> 2 \<and> commaOrPeriod (rest ! 0) \<and> isDigit rest 1
          then let n = 1 + length (takeWhile digitChar (drop 1 rest)) in
               (case parseNanoseconds rest n of None \<Rightarrow> None
                | Some ns \<Rightarrow> Some (s, ns, drop n rest))
          else Some (s, 0, rest))"

text \<open>
  The numeric zone \<^verbatim>\<open>-0700\<close>: a sign and two fields of two characters, each read by
  \<^verbatim>\<open>atoi\<close>; the offset is in seconds.
\<close>

definition parseNumTZ :: "string \<Rightarrow> (int \<times> string) option" where
  "parseNumTZ v =
     (if length v < 5 then None
      else case atoi (take 2 (drop 1 v)) of None \<Rightarrow> None
        | Some hr \<Rightarrow>
          (case atoi (take 2 (drop 3 v)) of None \<Rightarrow> None
           | Some mm \<Rightarrow>
             let zoneOffset = (hr * 60 + mm) * 60 in
             if v ! 0 = CHR ''+'' then Some (zoneOffset, drop 5 v)
             else if v ! 0 = CHR ''-'' then Some (- zoneOffset, drop 5 v)
             else None))"

datatype error =
  ParseError | NewRequestError | DoError | ReadAllError | UnmarshalError | GetByIDError

text \<open>
  The whole parse: the chunks in order, no text left over, the day valid for its month,
  and the instant built from the fields in UTC and moved by the zone offset. The
  parser's \<^verbatim>\<open>zoneOffset\<close> starts at \<open>-1\<close>, which means "no zone read"; then the fields
  are taken in UTC.
\<close>

definition parseFields :: "string \<Rightarrow> Time option" where
  "parseFields text =
     do {
       (year, v1) \<leftarrow> parseLongYear text;
       (month, v2) \<leftarrow> parseZeroMonth v1;
       (day, v3) \<leftarrow> parseZeroDay v2;
       v4 \<leftarrow> skipT v3;
       (hh, v5) \<leftarrow> parseHour v4;
       (mi, v6) \<leftarrow> parseZeroMinute v5;
       (ss, nsec, v7) \<leftarrow> parseZeroSecond v6;
       (zoneOffset, v8) \<leftarrow> parseNumTZ v7;
       if v8 \<noteq> [] then None
       else if day < 1 \<or> day > daysIn month year then None
       else if zoneOffset \<noteq> - 1 then Some (Date year month day hh mi ss nsec zoneOffset)
       else Some (Date year month day hh mi ss nsec 0)
     }"

definition time_Parse :: "string \<Rightarrow> Time \<times> error option" where
  "time_Parse text =
     (case parseFields text of None \<Rightarrow> (zeroTime, Some ParseError) | Some t \<Rightarrow> (t, None))"

subsection \<open>\<^verbatim>\<open>Time.Format\<close> on the layout \<^verbatim>\<open>20060102T150405-0700\<close>\<close>

text \<open>
  \<^verbatim>\<open>absDate\<close>: the year, month and day of a day counted from January 1 of year 1, by
  cutting off cycles of 400, 100, 4 and 1 years (\<^verbatim>\<open>n -= n >> 2\<close> keeps the last day of
  a cycle in its last year), then the month from the day of the year.
\<close>

definition monthDay :: "int \<Rightarrow> int \<Rightarrow> int \<times> int" where
  "monthDay year yday =
     (if isLeap year \<and> yday = 31 + 29 - 1 then (2, 29)
      else
        let day = (if isLeap year \<and> yday > 31 + 29 - 1 then yday - 1 else yday);
            month = day div 31;
            end = daysBefore (month + 1)
        in if day \<ge> end then (month + 2, day - end + 1)
           else (month + 1, day - daysBefore month + 1))"

definition absDate :: "int \<Rightarrow> int \<times> int \<times> int" where
  "absDate d =
     (let n400 = d div 146097;
          d1 = d - 146097 * n400;
          c = d1 div 36524;
          n100 = c - c div 4;
          d2 = d1 - 36524 * n100;
          n4 = d2 div 1461;
          d3 = d2 - 1461 * n4;
          y = d3 div 365;
          n1 = y - y div 4;
          yday = d3 - 365 * n1;
          year = 400 * n400 + 100 * n100 + 4 * n4 + n1 + 1
      in (year, monthDay year yday))"

text \<open>
  The wall clock of an instant in its zone: seconds counted from January 1 of year 1,
  00:00:00, in the zone.
\<close>

definition localAbs :: "Time \<Rightarrow> int" where
  "localAbs t = unixSec t + offsetSec t + 62135596800"

definition Year :: "Time \<Rightarrow> int" where
  "Year t = fst (absDate (localAbs t div 86400))"

text \<open>
  \<^verbatim>\<open>appendInt(b, x, width)\<close>: a minus sign for a negative number, then its digits,
  padded with zeros to \<open>width\<close>.
\<close>

definition appendInt :: "int \<Rightarrow> nat \<Rightarrow> string" where
  "appendInt x width =
     (let ds = utoa (nat \<bar>x\<bar>)
      in (if x < 0 then ''-'' else []) @ replicate (width - length ds) (CHR ''0'') @ ds)"

text \<open>
  The zone chunk \<^verbatim>\<open>-0700\<close>: the offset in minutes, rounded towards zero, as a sign,
  two digits of hours and two of minutes.
\<close>

definition formatNumTZ :: "int \<Rightarrow> string" where
  "formatNumTZ off =
     (let zone = (if off < 0 then - ((- off) div 60) else off div 60);
          sign = (if zone < 0 then ''-'' else ''+'');
          z = \<bar>zone\<bar>
      in sign @ appendInt (z div 60) 2 @ appendInt (z mod 60) 2)"

definition Format :: "Time \<Rightarrow> string" where
  "Format t =
     (let a = localAbs t;
          (year, month, day) = absDate (a div 86400);
          secs = a mod 86400
      in appendInt year 4 @ appendInt month 2 @ appendInt day 2 @ ''T''
         @ appendInt (secs div 3600) 2 @ appendInt (secs mod 3600 div 60) 2
         @ appendInt (secs mod 60) 2 @ formatNumTZ (offsetSec t))"

subsection \<open>\<^verbatim>\<open>TeamCityTime.UnmarshalJSON\<close>\<close>

text \<open>\<^verbatim>\<open>strings.Trim(s, cutset)\<close> for a cutset of ASCII characters.\<close>

definition Trim :: "string \<Rightarrow> string \<Rightarrow> string" where
  "Trim s cutset =
     rev (dropWhile (\<lambda>c. c \<in> set cutset) (rev (dropWhile (\<lambda>c. c \<in> set cutset) s)))"

definition quote :: char where
  "quote = CHR 0x22"

text \<open>
  The receiver's new value and the returned error: the parsed instant, or the zero
  instant together with the parse error.
\<close>

definition UnmarshalJSON :: "string \<Rightarrow> Time \<times> error option" where
  "UnmarshalJSON b = time_Parse (Trim b [quote])"

section \<open>The upstream server and the effects of a scrape\<close>

text \<open>
  What a collector does besides returning: the samples it sends on the metric channel
  and the calls it makes to the logger, as one sequence in program order. A log call
  carries the \<^verbatim>\<open>project\<close> field of its logger, if the logger has one, and its message
  or error; the other fields (\<^verbatim>\<open>count\<close>, \<^verbatim>\<open>value\<close>) are left out.
\<close>

datatype event =
  Send Metric
  | LogInfo "string option" string
  | LogDebug "string option" string
  | LogError "string option" error
  | LogFatal "string option" string

text \<open>
  How a call ends: it returns (with an error or \<open>nil\<close>), the process exits
  (\<^verbatim>\<open>logrus.Fatal\<close> logs and calls \<^verbatim>\<open>os.Exit(1)\<close>), it panics, or it never returns
  because it waits on a \<^verbatim>\<open>sync.WaitGroup\<close> whose counter never reaches zero.
\<close>

datatype outcome = Return "error option" | Exit | Panic | Blocked

text \<open>
  The result of \<^verbatim>\<open>http.NewRequest\<close> followed by \<^verbatim>\<open>client.Do\<close>: the request cannot be
  built (the request is \<open>nil\<close>), the round trip fails (the response is \<open>nil\<close>), or a
  response arrives with its status code and body.
\<close>

datatype 'b reply = NewRequestFails | DoFails | Response nat 'b

section \<open>The build collector\<close>

record Build =
  ID :: "64 word"
  BuildTypeID :: string
  Status :: string
  State :: string
  StartDate :: Time
  FinishDate :: Time

record BuildResponse =
  Count :: "64 word"
  HRef :: string
  NextHRef :: string
  PrevHRef :: string
  Builds :: "Build list"

text \<open>
  The JSON document of a build list as \<^verbatim>\<open>json.Unmarshal\<close> reads it into a
  \<^verbatim>\<open>BuildResponse\<close>. The members other than the two dates have the types of their Go
  fields (an absent member is the zero value). A date member, when present, is the raw
  text of its JSON value, quotes included: that text is what the decoder passes to
  \<^verbatim>\<open>TeamCityTime.UnmarshalJSON\<close>.
\<close>

record BuildJSON =
  j_id :: "64 word"
  j_buildTypeId :: string
  j_status :: string
  j_state :: string
  j_startDate :: "string option"
  j_finishDate :: "string option"

record BuildResponseJSON =
  j_count :: "64 word"
  j_href :: string
  j_nextHref :: string
  j_prevHref :: string
  j_build :: "BuildJSON list"

text \<open>
  A response body: \<^verbatim>\<open>io.ReadAll\<close> fails on it, or its bytes are not a JSON document of
  the shape above (a syntax error, or a member of the wrong type), or they are one.
\<close>

datatype 'd body = Unreadable | Undecodable | Document 'd

text \<open>
  Decoding a date member: an absent member leaves the field at its zero value; a
  present one goes through \<^verbatim>\<open>UnmarshalJSON\<close>.
\<close>

definition decodeTime :: "string option \<Rightarrow> Time \<times> error option" where
  "decodeTime raw = (case raw of None \<Rightarrow> (zeroTime, None) | Some b \<Rightarrow> UnmarshalJSON b)"

text \<open>
  \<^verbatim>\<open>json.Unmarshal\<close> stops at the first error an \<^verbatim>\<open>UnmarshalJSON\<close> method returns and
  returns that error.
\<close>

definition decodeBuild :: "BuildJSON \<Rightarrow> error + Build" where
  "decodeBuild j =
     (case decodeTime (j_startDate j) of
        (_, Some e) \<Rightarrow> Inl e
      | (start, None) \<Rightarrow>
          (case decodeTime (j_finishDate j) of
             (_, Some e) \<Rightarrow> Inl e
           | (finish, None) \<Rightarrow>
               Inr \<lparr> ID = j_id j, BuildTypeID = j_buildTypeId j, Status = j_status j,
                     State = j_state j, StartDate = start, FinishDate = finish \<rparr>))"

fun decodeBuilds :: "BuildJSON list \<Rightarrow> error + Build list" where
  "decodeBuilds [] = Inr []"
| "decodeBuilds (j # js) =
     (case decodeBuild j of
        Inl e \<Rightarrow> Inl e
      | Inr b \<Rightarrow> (case decodeBuilds js of Inl e \<Rightarrow> Inl e | Inr bs \<Rightarrow> Inr (b # bs)))"

definition json_Unmarshal :: "BuildResponseJSON \<Rightarrow> error + BuildResponse" where
  "json_Unmarshal d =
     (case decodeBuilds (j_build d) of
        Inl e \<Rightarrow> Inl e
      | Inr bs \<Rightarrow>
          Inr \<lparr> Count = j_count d, HRef = j_href d, NextHRef = j_nextHref d,
                PrevHRef = j_prevHref d, Builds = bs \<rparr>)"

text \<open>The body of the loop over \<^verbatim>\<open>builds.Builds\<close>: four samples per build.\<close>

definition buildSamples :: "TeamCityCollector \<Rightarrow> string \<Rightarrow> Build \<Rightarrow> Metric list" where
  "buildSamples collector identifier build =
     (let labels = [identifier, BuildTypeID build, utoa (unat (ID build))] in
      [MustNewConstMetric (buildStartTime collector) (Unix (StartDate build)) labels,
       MustNewConstMetric (buildFinishTime collector) (Unix (FinishDate build)) labels,
       MustNewConstMetric (buildStatus collector) (ParseBuildStatus (Status build)) labels,
       MustNewConstMetric (buildState collector) (ParseBuildState (State build)) labels])"

fun emitBuilds :: "TeamCityCollector \<Rightarrow> string \<Rightarrow> Build list \<Rightarrow> event list" where
  "emitBuilds collector identifier [] = []"
| "emitBuilds collector identifier (build # rest) =
     map Send (buildSamples collector identifier build) @ emitBuilds collector identifier rest"

text \<open>
  \<^verbatim>\<open>collectProjectBuildMetrics\<close> (metrics.go, lines 151-231), given what the upstream
  answers to the build-list request of the project.
\<close>

definition collectProjectBuildMetrics ::
  "TeamCityCollector \<Rightarrow> BuildResponseJSON body reply \<Rightarrow> string \<Rightarrow> event list \<times> outcome" where
  "collectProjectBuildMetrics collector answer identifier =
     (case answer of
        NewRequestFails \<Rightarrow> ([], Return (Some NewRequestError))
      | DoFails \<Rightarrow> ([], Return (Some DoError))
      | Response status b \<Rightarrow>
          if status = 404 then ([], Return None)
          else (case b of
            Unreadable \<Rightarrow> ([], Return (Some ReadAllError))
          | Undecodable \<Rightarrow> ([], Return (Some UnmarshalError))
          | Document d \<Rightarrow>
              (case json_Unmarshal d of
                 Inl e \<Rightarrow> ([], Return (Some e))
               | Inr builds \<Rightarrow>
                   let evs = LogInfo (Some identifier) ''found builds''
                               # emitBuilds collector identifier (Builds builds)
                   in if NextHRef builds \<noteq> []
                      then (evs @ [LogFatal (Some identifier)
                                     ''multipage requests are not yet supported''], Exit)
                      else (evs, Return None))))"

section \<open>The agent collector\<close>

record Agent =
  a_ID :: "64 word"
  a_Name :: string
  a_Authorized :: bool
  a_Connected :: bool
  a_Enabled :: bool
  a_CurrentBuild :: Build

record AgentsResponse =
  a_Count :: "64 word"
  a_HRef :: string
  a_NextHRef :: string
  a_PrevHRef :: string
  a_Agents :: "Agent list"

text \<open>
  The agent collector logs the errors of \<^verbatim>\<open>io.ReadAll\<close> and \<^verbatim>\<open>json.Unmarshal\<close> and goes
  on, so what it works with is the value \<^verbatim>\<open>json.Unmarshal\<close> leaves in \<^verbatim>\<open>agents\<close>
  (the zero value when nothing was decoded). A body is given by the two errors, if
  any, and that value.
\<close>

record AgentsBody =
  readError :: "error option"
  unmarshalError :: "error option"
  decoded :: AgentsResponse

definition logIfError :: "error option \<Rightarrow> event list" where
  "logIfError err = (case err of None \<Rightarrow> [] | Some e \<Rightarrow> [LogError None e])"

definition boolGauge :: "bool \<Rightarrow> int" where
  "boolGauge b = (if b then 1 else 0)"

definition agentSamples :: "TeamCityAgentCollector \<Rightarrow> Agent \<Rightarrow> Metric list" where
  "agentSamples collector agent =
     (let labels = [utoa (unat (a_ID agent)), a_Name agent] in
      [MustNewConstMetric (agentAuthorized collector) (boolGauge (a_Authorized agent)) labels,
       MustNewConstMetric (agentConnected collector) (boolGauge (a_Connected agent)) labels,
       MustNewConstMetric (agentEnabled collector) (boolGauge (a_Enabled agent)) labels,
       MustNewConstMetric (agentCurrentBuildId collector)
         (float64 (uint (ID (a_CurrentBuild agent)))) labels])"

fun emitAgents :: "TeamCityAgentCollector \<Rightarrow> Agent list \<Rightarrow> event list" where
  "emitAgents collector [] = []"
| "emitAgents collector (agent # rest) =
     map Send (agentSamples collector agent) @ emitAgents collector rest"

text \<open>
  \<^verbatim>\<open>TeamCityAgentCollector.Collect\<close> (agents.go, lines 85-161). After a failed
  \<^verbatim>\<open>http.NewRequest\<close> the error is logged and \<^verbatim>\<open>request.Header\<close> reads a \<open>nil\<close>
  request; after a failed \<^verbatim>\<open>client.Do\<close> the error is logged and
  \<^verbatim>\<open>response.StatusCode\<close> reads a \<open>nil\<close> response. Either read panics.
\<close>

definition Agent_Collect ::
  "TeamCityAgentCollector \<Rightarrow> AgentsBody reply \<Rightarrow> event list \<times> outcome" where
  "Agent_Collect collector answer =
     (let start = [LogInfo None ''collecting TeamCity agent metrics''] in
      case answer of
        NewRequestFails \<Rightarrow> (start @ [LogError None NewRequestError], Panic)
      | DoFails \<Rightarrow> (start @ [LogError None DoError], Panic)
      | Response status b \<Rightarrow>
          if status = 404 then (start, Return None)
          else
            let evs = start @ logIfError (readError b) @ logIfError (unmarshalError b);
                agents = decoded b
            in if a_NextHRef agents \<noteq> []
               then (evs @ [LogFatal None ''multipage requests are not yet supported''], Exit)
               else (evs @ emitAgents collector (a_Agents agents), Return None))"

section \<open>The project-tree collector\<close>

text \<open>
  The fields of a \<^verbatim>\<open>teamcity.Project\<close> the collector reads: its identifier,
  \<^verbatim>\<open>ChildProjects.Count\<close>, the identifiers of \<^verbatim>\<open>ChildProjects.Items\<close> and
  \<^verbatim>\<open>BuildTypes.Count\<close>. The count and the items are separate members of the server's
  answer.
\<close>

record Project =
  p_ID :: string
  ChildProjects_Count :: int
  ChildProjects_Items :: "string list"
  BuildTypes_Count :: int

text \<open>
  The upstream server: what \<^verbatim>\<open>client.Projects.GetByID\<close> returns for an identifier
  (\<open>None\<close> is an error) and what the build-list request of a project is answered.
\<close>

record Upstream =
  GetByID :: "string \<Rightarrow> Project option"
  buildsOf :: "string \<Rightarrow> BuildResponseJSON body reply"

text \<open>
  The counter of a \<^verbatim>\<open>sync.WaitGroup\<close> is the signed 32-bit number in the upper half of
  its state word: \<^verbatim>\<open>wg.Add(delta)\<close> adds \<^verbatim>\<open>uint64(delta) << 32\<close> to the state, which
  keeps the low 32 bits of \<open>delta\<close>. This is the counter after \<^verbatim>\<open>Add(delta)\<close> on a
  fresh wait group.
\<close>

definition counter32 :: "int \<Rightarrow> int" where
  "counter32 delta = sint (word_of_int delta :: 32 word)"

text \<open>
  How the sequential part of a traversal step ends: with an outcome of the call, or at
  the join, with the counter of the wait group and the identifiers for which a
  goroutine is launched.
\<close>

datatype step = Ends outcome | Joins int "string list"

text \<open>
  \<^verbatim>\<open>TeamCityCollector.collectProjectMetrics\<close> (metrics.go, lines 98-149), the part its
  own goroutine runs up to \<^verbatim>\<open>wg.Wait()\<close>: the project lookup, the two structural
  gauges, the build collection, \<^verbatim>\<open>wg.Add(p.ChildProjects.Count)\<close>, which panics when the
  counter it leaves is negative, the \<^verbatim>\<open>go\<close> statement for every entry of
  \<^verbatim>\<open>p.ChildProjects.Items\<close> and the log call before the wait.
\<close>

definition projectStep :: "TeamCityCollector \<Rightarrow> Upstream \<Rightarrow> string \<Rightarrow> event list \<times> step" where
  "projectStep collector up identifier =
     (let ctx = Some identifier in
      case GetByID up identifier of
        None \<Rightarrow> ([LogInfo ctx ''collecting project''], Ends (Return (Some GetByIDError)))
      | Some p \<Rightarrow>
          (let evs1 = [LogInfo ctx ''collecting project'',
                       LogDebug ctx ''setting project count metric'',
                       Send (MustNewConstMetric (projects collector)
                               (float64 (ChildProjects_Count p)) [p_ID p]),
                       LogDebug ctx ''setting build type count metric'',
                       Send (MustNewConstMetric (buildTypes collector)
                               (float64 (BuildTypes_Count p)) [p_ID p])];
               (evs2, out) = collectProjectBuildMetrics collector (buildsOf up (p_ID p)) (p_ID p)
           in case out of
                Return None \<Rightarrow>
                  if counter32 (ChildProjects_Count p) < 0 then (evs1 @ evs2, Ends Panic)
                  else (evs1 @ evs2 @ [LogDebug ctx ''waiting for project collection''],
                        Joins (counter32 (ChildProjects_Count p)) (ChildProjects_Items p))
              | _ \<Rightarrow> (evs1 @ evs2, Ends out)))"

text \<open>
  How a call ends, and the number of goroutines launched below it that have not ended
  by then (when it returns, these are left behind).
\<close>

type_synonym run = "outcome \<times> nat"

text \<open>
  The executions of \<^verbatim>\<open>collectProjectMetrics\<close> and of its join (metrics.go, lines
  132-148). The goroutines of a join run concurrently with each other and with the
  waiting call, so a call has several executions; the relations hold of every way a call
  can end. The order of the events of concurrent goroutines is not kept.

  \<open>joinTasks collector up counter pending left r\<close>: the wait group's counter is
  \<open>counter\<close>, the goroutines of \<open>pending\<close> have not ended yet, and the call ends as \<open>r\<close>.
  \<^item> \<^verbatim>\<open>wg.Wait()\<close> returns when the counter is zero, whatever goroutines are still
    running, and the call returns \<open>nil\<close>, leaving them behind.
  \<^item> With no goroutine left to decrement a counter that is not zero, the wait never
    returns.
  \<^item> A goroutine whose call returns calls \<^verbatim>\<open>wg.Done()\<close>: the counter goes down by one,
    and a counter that would become negative panics.
  \<^item> A goroutine whose call never returns never calls \<^verbatim>\<open>wg.Done()\<close>.
  \<^item> A goroutine in which the process exits or panics ends every call in progress.
\<close>

inductive collectProjectMetrics :: "TeamCityCollector \<Rightarrow> Upstream \<Rightarrow> string \<Rightarrow> run \<Rightarrow> bool"
  and joinTasks :: "TeamCityCollector \<Rightarrow> Upstream \<Rightarrow> int \<Rightarrow> string list \<Rightarrow> nat \<Rightarrow> run \<Rightarrow> bool"
where
  ends:
    "snd (projectStep collector up identifier) = Ends out
     \<Longrightarrow> collectProjectMetrics collector up identifier (out, 0)"
| joins:
    "snd (projectStep collector up identifier) = Joins counter items
     \<Longrightarrow> joinTasks collector up counter items 0 r
     \<Longrightarrow> collectProjectMetrics collector up identifier r"
| wait_returns:
    "joinTasks collector up 0 pending left (Return None, left + length pending)"
| wait_blocks:
    "counter \<noteq> 0 \<Longrightarrow> joinTasks collector up counter [] left (Blocked, left)"
| task_done:
    "i \<in> set pending
     \<Longrightarrow> collectProjectMetrics collector up i (Return err, l)
     \<Longrightarrow> 0 < counter
     \<Longrightarrow> joinTasks collector up (counter - 1) (remove1 i pending) (left + l) r
     \<Longrightarrow> joinTasks collector up counter pending left r"
| surplus_done:
    "i \<in> set pending
     \<Longrightarrow> collectProjectMetrics collector up i (Return err, l)
     \<Longrightarrow> counter \<le> 0
     \<Longrightarrow> joinTasks collector up counter pending left (Panic, left + l)"
| task_waits:
    "i \<in> set pending
     \<Longrightarrow> collectProjectMetrics collector up i (Blocked, l)
     \<Longrightarrow> joinTasks collector up counter (remove1 i pending) (left + l + 1) r
     \<Longrightarrow> joinTasks collector up counter pending left r"
| task_exits:
    "i \<in> set pending
     \<Longrightarrow> collectProjectMetrics collector up i (Exit, l)
     \<Longrightarrow> joinTasks collector up counter pending left (Exit, left + l)"
| task_panics:
    "i \<in> set pending
     \<Longrightarrow> collectProjectMetrics collector up i (Panic, l)
     \<Longrightarrow> joinTasks collector up counter pending left (Panic, left + l)"


section \<open>Notions the properties are stated with\<close>

text \<open>
  A build of the JSON document has a malformed timestamp when one of its date members
  is present and \<^verbatim>\<open>UnmarshalJSON\<close> returns an error on it.
\<close>

definition malformed :: "BuildJSON \<Rightarrow> bool" where
  "malformed j =
     (snd (decodeTime (j_startDate j)) \<noteq> None \<or> snd (decodeTime (j_finishDate j)) \<noteq> None)"




text \<open>The character of a decimal digit.\<close>

definition dc :: "nat \<Rightarrow> char" where
  "dc n = char_of (48 + n)"

subsection \<open>Concrete inputs\<close>

definition goodStamp :: string where
  "goodStamp = quote # ''20240102T030405+0100'' @ [quote]"

definition badStamp :: string where
  "badStamp = quote # ''2024-01-02'' @ [quote]"

definition goodBuild :: BuildJSON where
  "goodBuild =
     \<lparr> j_id = 8, j_buildTypeId = ''bt'', j_status = ''FAILURE'', j_state = ''running'',
       j_startDate = Some goodStamp, j_finishDate = None \<rparr>"

definition badBuild :: BuildJSON where
  "badBuild =
     \<lparr> j_id = 7, j_buildTypeId = ''bt'', j_status = ''SUCCESS'', j_state = ''finished'',
       j_startDate = Some badStamp, j_finishDate = None \<rparr>"

definition page :: "BuildJSON list \<Rightarrow> string \<Rightarrow> BuildResponseJSON" where
  "page bs next =
     \<lparr> j_count = of_nat (length bs), j_href = [], j_nextHref = next, j_prevHref = [],
       j_build = bs \<rparr>"

text \<open>A root project with two leaves; every build-list request is answered 404.\<close>

definition leaf :: "string \<Rightarrow> Project" where
  "leaf i = \<lparr> p_ID = i, ChildProjects_Count = 0, ChildProjects_Items = [], BuildTypes_Count = 0 \<rparr>"

definition smallTree :: Upstream where
  "smallTree =
     \<lparr> GetByID = (\<lambda>i.
         if i = ''_Root''
         then Some \<lparr> p_ID = ''_Root'', ChildProjects_Count = 2,
                     ChildProjects_Items = [''A'', ''B''], BuildTypes_Count = 0 \<rparr>
         else if i = ''A'' \<or> i = ''B'' then Some (leaf i) else None),
       buildsOf = (\<lambda>i. Response 404 Unreadable) \<rparr>"


text \<open>The same two leaves under a root whose \<^verbatim>\<open>ChildProjects.Count\<close> is \<open>n\<close>.\<close>

definition twoLeaves :: "int \<Rightarrow> Upstream" where
  "twoLeaves n =
     \<lparr> GetByID = (\<lambda>i.
         if i = ''_Root''
         then Some \<lparr> p_ID = ''_Root'', ChildProjects_Count = n,
                     ChildProjects_Items = [''A'', ''B''], BuildTypes_Count = 0 \<rparr>
         else if i = ''A'' \<or> i = ''B'' then Some (leaf i) else None),
       buildsOf = (\<lambda>i. Response 404 Unreadable) \<rparr>"

definition idleAgent :: Agent where
  "idleAgent =
     \<lparr> a_ID = 1, a_Name = ''agent'', a_Authorized = True, a_Connected = False, a_Enabled = True,
       a_CurrentBuild = \<lparr> ID = 0, BuildTypeID = [], Status = [], State = [],
                           StartDate = zeroTime, FinishDate = zeroTime \<rparr> \<rparr>"

definition pagedAgents :: AgentsBody where
  "pagedAgents =
     \<lparr> readError = None, unmarshalError = None,
       decoded = \<lparr> a_Count = 1, a_HRef = [], a_NextHRef = ''/next'', a_PrevHRef = [],
                   a_Agents = [idleAgent] \<rparr> \<rparr>"

text \<open>
  Three instants: the first second of year 10000 in UTC, an instant in a zone thirty
  seconds east of UTC, and an instant in a zone a hundred hours east of UTC.
\<close>

definition year10000 :: Time where
  "year10000 = \<lparr> unixSec = 253402300800, nanos = 0, offsetSec = 0 \<rparr>"

definition halfMinuteZone :: Time where
  "halfMinuteZone = \<lparr> unixSec = 1704161045, nanos = 0, offsetSec = 30 \<rparr>"

definition hundredHourZone :: Time where
  "hundredHourZone = \<lparr> unixSec = 1704161045, nanos = 0, offsetSec = 360000 \<rparr>"

definition newYear2024 :: Time where
  "newYear2024 = \<lparr> unixSec = 1704161045, nanos = 0, offsetSec = 3600 \<rparr>"

section \<open>Properties\<close>

text \<open>
  C3. For every input string, \<^verbatim>\<open>ParseBuildState\<close> returns 1 for "queued", 2 for
  "finished", 3 for "running", 4 for "deleted", and 0 (Unknown) for every other string,
  the empty string included. The function is total: it has no failing branch.
\<close>

theorem ParseBuildState_ordinals:
  "ParseBuildState ''queued'' = 1 \<and> ParseBuildState ''finished'' = 2
   \<and> ParseBuildState ''running'' = 3 \<and> ParseBuildState ''deleted'' = 4
   \<and> ParseBuildState [] = 0 \<and> BuildStateUnknown = 0
   \<and> (\<forall>s. s \<notin> {''queued'', ''finished'', ''running'', ''deleted''}
          \<longrightarrow> ParseBuildState s = BuildStateUnknown)"
  by (simp add: ParseBuildState_def BuildQueued_def BuildFinished_def BuildRunning_def
      BuildDeleted_def BuildStateUnknown_def)

theorem ParseBuildState_ordinals_witness:
  "''paused'' \<notin> {''queued'', ''finished'', ''running'', ''deleted''}
   \<and> ParseBuildState ''paused'' = BuildStateUnknown"
  using ParseBuildState_ordinals by simp

text \<open>
  C4. For every input string, \<^verbatim>\<open>ParseBuildStatus\<close> returns 1 for "SUCCESS", 2 for
  "FAILURE", and 0 (Unknown) for every other string. The function is total.
\<close>

theorem ParseBuildStatus_ordinals:
  "ParseBuildStatus ''SUCCESS'' = 1 \<and> ParseBuildStatus ''FAILURE'' = 2
   \<and> BuildStatusUnknown = 0
   \<and> (\<forall>s. s \<notin> {''SUCCESS'', ''FAILURE''} \<longrightarrow> ParseBuildStatus s = BuildStatusUnknown)"
  by (simp add: ParseBuildStatus_def BuildSuccess_def BuildFailure_def BuildStatusUnknown_def)

theorem ParseBuildStatus_ordinals_witness:
  "''success'' \<notin> {''SUCCESS'', ''FAILURE''}
   \<and> ParseBuildStatus ''success'' = BuildStatusUnknown"
  using ParseBuildStatus_ordinals by simp

text \<open>
  C7. The claim is that the registered collector's \<^verbatim>\<open>Describe\<close> sends every descriptor
  of its static set to the channel. The registered collector is the one \<^verbatim>\<open>main\<close> builds
  with \<^verbatim>\<open>NewTeamCityCollector\<close>; its \<^verbatim>\<open>Describe\<close> sends nothing, while its set holds six
  distinct descriptors, and each sibling collector's \<^verbatim>\<open>Describe\<close> sends all of its own.
\<close>

theorem Describe_sends_nothing:
  "Describe NewTeamCityCollector = []
   \<and> length (descriptor_set NewTeamCityCollector) = 6
   \<and> distinct (descriptor_set NewTeamCityCollector)
   \<and> set (Builds_Describe NewTeamCityBuildsCollector)
       = {b_buildStartTime NewTeamCityBuildsCollector, b_buildFinishTime NewTeamCityBuildsCollector,
          b_buildState NewTeamCityBuildsCollector, b_buildStatus NewTeamCityBuildsCollector}
   \<and> set (Projects_Describe NewTeamCityProjectsCollector)
       = {p_buildTypes NewTeamCityProjectsCollector, p_projects NewTeamCityProjectsCollector}
   \<and> set (Agent_Describe NewTeamCityAgentCollector)
       = {agentAuthorized NewTeamCityAgentCollector, agentConnected NewTeamCityAgentCollector,
          agentEnabled NewTeamCityAgentCollector, agentCurrentBuildId NewTeamCityAgentCollector}"
  by (auto simp: Describe_def descriptor_set_def NewTeamCityCollector_def NewDesc_def
      Builds_Describe_def Projects_Describe_def Agent_Describe_def)

subsection \<open>The build collector\<close>

lemma time_Parse_error:
  "snd (time_Parse s) \<noteq> None \<Longrightarrow> time_Parse s = (zeroTime, Some ParseError)"
  by (simp add: time_Parse_def split: option.splits)

lemma decodeTime_error:
  "snd (decodeTime raw) \<noteq> None \<Longrightarrow> decodeTime raw = (zeroTime, Some ParseError)"
  by (cases raw) (simp_all add: decodeTime_def UnmarshalJSON_def time_Parse_error)

lemma decodeTime_Some: "decodeTime raw = (t, Some e) \<Longrightarrow> t = zeroTime \<and> e = ParseError"
  using decodeTime_error [of raw] by simp

lemma decodeBuild_malformed: "malformed j \<Longrightarrow> decodeBuild j = Inl ParseError"
  unfolding malformed_def decodeBuild_def
  by (auto dest: decodeTime_Some split: prod.splits option.splits)

lemma decodeBuild_error: "decodeBuild j = Inl e \<Longrightarrow> e = ParseError"
  unfolding decodeBuild_def
  by (auto split: prod.splits option.splits dest: decodeTime_Some)

lemma decodeBuilds_malformed:
  "\<exists>j \<in> set js. malformed j \<Longrightarrow> decodeBuilds js = Inl ParseError"
proof (induction js)
  case Nil
  then show ?case by simp
next
  case (Cons j js)
  show ?case
  proof (cases "decodeBuild j")
    case (Inl e)
    then show ?thesis using decodeBuild_error [OF Inl] by simp
  next
    case (Inr b)
    then have "\<not> malformed j" using decodeBuild_malformed by fastforce
    with Cons.prems have "\<exists>j \<in> set js. malformed j" by simp
    then show ?thesis using Cons.IH Inr by simp
  qed
qed

lemma good_parse:
  "UnmarshalJSON goodStamp = (\<lparr> unixSec = 1704161045, nanos = 0, offsetSec = 3600 \<rparr>, None)"
  by code_simp

lemma bad_parse: "UnmarshalJSON badStamp = (zeroTime, Some ParseError)"
  by code_simp

lemma goodBuild_decodes:
  "decodeBuild goodBuild
     = Inr \<lparr> ID = 8, BuildTypeID = ''bt'', Status = ''FAILURE'', State = ''running'',
             StartDate = \<lparr> unixSec = 1704161045, nanos = 0, offsetSec = 3600 \<rparr>,
             FinishDate = zeroTime \<rparr>"
  by (simp add: decodeBuild_def goodBuild_def decodeTime_def good_parse)

lemma badBuild_malformed: "malformed badBuild"
  by (simp add: malformed_def badBuild_def decodeTime_def bad_parse)

lemma goodBuild_wellformed: "\<not> malformed goodBuild"
  by (simp add: malformed_def goodBuild_def decodeTime_def good_parse)

lemma page_build: "j_build (page bs next) = bs"
  by (simp add: page_def)

lemma emitBuilds_concat:
  "emitBuilds c i bs = concat (map (\<lambda>b. map Send (buildSamples c i b)) bs)"
  by (induction bs) simp_all

lemma utoa_8: "utoa 8 = ''8''"
  by code_simp

lemma page_good_decodes:
  "json_Unmarshal (page [goodBuild] ''/next'')
     = Inr \<lparr> Count = 1, HRef = [], NextHRef = ''/next'', PrevHRef = [],
             Builds = [\<lparr> ID = 8, BuildTypeID = ''bt'', Status = ''FAILURE'', State = ''running'',
               StartDate = \<lparr> unixSec = 1704161045, nanos = 0, offsetSec = 3600 \<rparr>,
               FinishDate = zeroTime \<rparr>] \<rparr>"
  by (simp add: json_Unmarshal_def page_def goodBuild_decodes)

text \<open>
  C1, as amended. When some build of the response (status other than 404) has a
  malformed startDate or finishDate, \<^verbatim>\<open>UnmarshalJSON\<close> leaves the zero instant in the
  field and returns a parse error, \<^verbatim>\<open>json.Unmarshal\<close> returns that error, and
  \<^verbatim>\<open>collectProjectBuildMetrics\<close> returns it having sent no sample and logged nothing:
  no gauge of any build of the response is emitted. The error is returned, so the
  process does not exit.
\<close>

theorem malformed_timestamp_returns_error:
  assumes "status \<noteq> 404" and "j \<in> set (j_build d)" and "malformed j"
  shows "collectProjectBuildMetrics collector (Response status (Document d)) identifier
           = ([], Return (Some ParseError))
         \<and> (\<forall>b. snd (UnmarshalJSON b) \<noteq> None \<longrightarrow> UnmarshalJSON b = (zeroTime, Some ParseError))"
proof -
  have "decodeBuilds (j_build d) = Inl ParseError"
    using assms(2,3) by (intro decodeBuilds_malformed) blast
  then have "collectProjectBuildMetrics collector (Response status (Document d)) identifier
           = ([], Return (Some ParseError))"
    using assms(1) by (simp add: collectProjectBuildMetrics_def json_Unmarshal_def)
  then show ?thesis
    by (simp add: UnmarshalJSON_def time_Parse_error)
qed

theorem malformed_timestamp_returns_error_witness:
  "badBuild \<in> set (j_build (page [goodBuild, badBuild] [])) \<and> malformed badBuild
   \<and> collectProjectBuildMetrics NewTeamCityCollector
        (Response 200 (Document (page [goodBuild, badBuild] []))) ''P''
      = ([], Return (Some ParseError))
   \<and> UnmarshalJSON badStamp = (zeroTime, Some ParseError)"
proof -
  have m: "badBuild \<in> set (j_build (page [goodBuild, badBuild] []))"
    by (simp add: page_build)
  have n: "(200::nat) \<noteq> 404" by simp
  have b: "snd (UnmarshalJSON badStamp) \<noteq> None" by (simp add: bad_parse)
  show ?thesis
    using malformed_timestamp_returns_error [OF n m badBuild_malformed] m badBuild_malformed b
    by blast
qed

text \<open>
  C1, as the claim states it, fails: in a page of two builds of which the second has
  a malformed startDate and the first is well-formed, no gauge is emitted for either
  build.
\<close>

theorem malformed_timestamp_counterexample:
  "malformed badBuild \<and> \<not> malformed goodBuild
   \<and> fst (collectProjectBuildMetrics NewTeamCityCollector
        (Response 200 (Document (page [goodBuild, badBuild] []))) ''P'') = []"
proof -
  have "decodeBuilds (j_build (page [goodBuild, badBuild] [])) = Inl ParseError"
    by (rule decodeBuilds_malformed) (simp add: page_build badBuild_malformed)
  then have "collectProjectBuildMetrics NewTeamCityCollector
        (Response 200 (Document (page [goodBuild, badBuild] []))) ''P''
      = ([], Return (Some ParseError))"
    by (simp add: collectProjectBuildMetrics_def json_Unmarshal_def)
  then show ?thesis
    using badBuild_malformed goodBuild_wellformed by simp
qed

text \<open>
  C2. When the decoded build list has a non-empty \<^verbatim>\<open>nextHref\<close>, the collector first
  sends the four gauges (start time, finish time, status, state, in that order) of every
  build of the page, in the order of the page, and only then logs the fatal message and
  exits.
\<close>

theorem samples_before_fatal_check:
  assumes "status \<noteq> 404" and "json_Unmarshal d = Inr builds" and "NextHRef builds \<noteq> []"
  shows "collectProjectBuildMetrics collector (Response status (Document d)) identifier
     = (LogInfo (Some identifier) ''found builds''
          # concat (map (\<lambda>build.
               [Send (MustNewConstMetric (buildStartTime collector) (Unix (StartDate build))
                  [identifier, BuildTypeID build, utoa (unat (ID build))]),
                Send (MustNewConstMetric (buildFinishTime collector) (Unix (FinishDate build))
                  [identifier, BuildTypeID build, utoa (unat (ID build))]),
                Send (MustNewConstMetric (buildStatus collector) (ParseBuildStatus (Status build))
                  [identifier, BuildTypeID build, utoa (unat (ID build))]),
                Send (MustNewConstMetric (buildState collector) (ParseBuildState (State build))
                  [identifier, BuildTypeID build, utoa (unat (ID build))])]) (Builds builds))
          @ [LogFatal (Some identifier) ''multipage requests are not yet supported''],
        Exit)"
  using assms
  by (simp add: collectProjectBuildMetrics_def emitBuilds_concat buildSamples_def Let_def)

theorem samples_before_fatal_check_witness:
  "collectProjectBuildMetrics NewTeamCityCollector
       (Response 200 (Document (page [goodBuild] ''/next''))) ''P''
     = ([LogInfo (Some ''P'') ''found builds'',
         Send (MustNewConstMetric (buildStartTime NewTeamCityCollector) 1704161045
                 [''P'', ''bt'', ''8'']),
         Send (MustNewConstMetric (buildFinishTime NewTeamCityCollector) (- 62135596800)
                 [''P'', ''bt'', ''8'']),
         Send (MustNewConstMetric (buildStatus NewTeamCityCollector) 2 [''P'', ''bt'', ''8'']),
         Send (MustNewConstMetric (buildState NewTeamCityCollector) 3 [''P'', ''bt'', ''8'']),
         LogFatal (Some ''P'') ''multipage requests are not yet supported''], Exit)"
  using samples_before_fatal_check
    [of 200 "page [goodBuild] ''/next''" _ NewTeamCityCollector "''P''", OF _ page_good_decodes]
  by (simp add: Unix_def zeroTime_def ParseBuildStatus_def ParseBuildState_def BuildFailure_def
      BuildRunning_def utoa_8)

subsection \<open>The agent collector\<close>

text \<open>
  C9. In the agent collector the reads of the response are safe exactly when
  \<^verbatim>\<open>http.NewRequest\<close> and \<^verbatim>\<open>client.Do\<close> returned without error: after either failure
  the error is only logged and the next statement reads a \<open>nil\<close> pointer, which
  panics; with a response at hand the collector never panics.
\<close>

theorem agent_nil_dereference:
  "Agent_Collect collector NewRequestFails
     = ([LogInfo None ''collecting TeamCity agent metrics'', LogError None NewRequestError], Panic)
   \<and> Agent_Collect collector DoFails
     = ([LogInfo None ''collecting TeamCity agent metrics'', LogError None DoError], Panic)
   \<and> (snd (Agent_Collect collector answer) \<noteq> Panic) = (\<exists>status b. answer = Response status b)"
  by (cases answer) (simp_all add: Agent_Collect_def Let_def)

text \<open>
  C10. The agent collector checks \<^verbatim>\<open>nextHref\<close> before its loop: when the decoded
  agent list has a non-empty \<^verbatim>\<open>nextHref\<close>, it logs the fatal message and exits having
  sent no sample, whatever agents the page holds. The build collector, on a page with a
  non-empty \<^verbatim>\<open>nextHref\<close>, has sent the samples of the page before its fatal message.
\<close>

theorem agent_checks_before_emitting:
  assumes "status \<noteq> 404" and "a_NextHRef (decoded b) \<noteq> []"
  shows "Agent_Collect collector (Response status b)
     = (LogInfo None ''collecting TeamCity agent metrics''
          # logIfError (readError b) @ logIfError (unmarshalError b)
          @ [LogFatal None ''multipage requests are not yet supported''], Exit)
    \<and> (\<forall>m. Send m \<notin> set (fst (Agent_Collect collector (Response status b))))"
  using assms
  by (auto simp add: Agent_Collect_def Let_def logIfError_def split: option.splits)

theorem agent_checks_before_emitting_witness:
  "a_Agents (decoded pagedAgents) = [idleAgent]
   \<and> Agent_Collect NewTeamCityAgentCollector (Response 200 pagedAgents)
     = ([LogInfo None ''collecting TeamCity agent metrics'',
         LogFatal None ''multipage requests are not yet supported''], Exit)"
proof -
  have n: "(200::nat) \<noteq> 404" by simp
  have h: "a_NextHRef (decoded pagedAgents) \<noteq> []" by (simp add: pagedAgents_def)
  show ?thesis
    using agent_checks_before_emitting [OF n h, of NewTeamCityAgentCollector]
    by (simp add: pagedAgents_def logIfError_def)
qed

subsection \<open>The project-tree collector\<close>











lemma counter32_id:
  assumes "0 \<le> n" and "n < 2 ^ 31"
  shows "counter32 n = n"
  unfolding counter32_def sint_sbintrunc'
  using assms by (simp add: signed_take_bit_int_eq_self)


lemma counter32_small: "counter32 0 = 0" "counter32 1 = 1" "counter32 2 = 2"
  by (simp_all add: counter32_id)

lemma counter32_wrapped: "counter32 4294967298 = 2"
  by (simp add: counter32_def sint_sbintrunc' signed_take_bit_eq_take_bit_shift take_bit_eq_mod)

lemma float64_0: "float64 0 = 0"
  by code_simp


lemma leaf_step:
  assumes "GetByID up i = Some (leaf i)" and "buildsOf up i = Response 404 b"
  shows "projectStep collector up i
     = ([LogInfo (Some i) ''collecting project'',
         LogDebug (Some i) ''setting project count metric'',
         Send (MustNewConstMetric (projects collector) 0 [i]),
         LogDebug (Some i) ''setting build type count metric'',
         Send (MustNewConstMetric (buildTypes collector) 0 [i]),
         LogDebug (Some i) ''waiting for project collection''], Joins 0 [])"
  using assms
  by (simp add: projectStep_def leaf_def collectProjectBuildMetrics_def counter32_small float64_0
      Let_def)

lemma leaf_run:
  assumes "GetByID up i = Some (leaf i)" and "buildsOf up i = Response 404 b"
  shows "collectProjectMetrics collector up i (Return None, 0)"
proof -
  have "snd (projectStep collector up i) = Joins 0 []"
    using leaf_step [OF assms] by simp
  moreover have "joinTasks collector up 0 [] 0 (Return None, 0)"
    using wait_returns [of collector up "[]" 0] by simp
  ultimately show ?thesis by (rule joins)
qed

lemma twoLeaves_leaf:
  "GetByID (twoLeaves n) ''A'' = Some (leaf ''A'')" "GetByID (twoLeaves n) ''B'' = Some (leaf ''B'')"
  "buildsOf (twoLeaves n) i = Response 404 Unreadable"
  by (simp_all add: twoLeaves_def)

lemma twoLeaves_root:
  assumes "0 \<le> counter32 n"
  shows "snd (projectStep collector (twoLeaves n) ''_Root'') = Joins (counter32 n) [''A'', ''B'']"
  using assms by (simp add: projectStep_def twoLeaves_def collectProjectBuildMetrics_def Let_def)

text \<open>the count is one short: the wait returns after the first task\<close>

lemma short_count_run:
  "collectProjectMetrics collector (twoLeaves 1) ''_Root'' (Return None, 1)"
proof -
  have s: "snd (projectStep collector (twoLeaves 1) ''_Root'') = Joins 1 [''A'', ''B'']"
    using twoLeaves_root [of 1 collector] by (simp add: counter32_small)
  have a: "collectProjectMetrics collector (twoLeaves 1) ''A'' (Return None, 0)"
    by (rule leaf_run [OF twoLeaves_leaf(1) twoLeaves_leaf(3)])
  have "joinTasks collector (twoLeaves 1) 0 [''B''] 0 (Return None, 1)"
    using wait_returns [of collector "twoLeaves 1" "[''B'']" 0] by simp
  then have j: "joinTasks collector (twoLeaves 1) (1 - 1) (remove1 ''A'' [''A'', ''B'']) (0 + 0)
      (Return None, 1)"
    by simp
  have m: "''A'' \<in> set [''A'', ''B'']" by simp
  have p: "(0::int) < 1" by simp
  from s task_done [OF m a p j] show ?thesis by (rule joins)
qed

text \<open>both tasks done, the counter at two: the wait returns with nothing left\<close>

lemma two_tasks_join:
  assumes "GetByID up ''A'' = Some (leaf ''A'')" and "GetByID up ''B'' = Some (leaf ''B'')"
    and "\<And>i. buildsOf up i = Response 404 Unreadable"
  shows "joinTasks collector up 2 [''A'', ''B''] 0 (Return None, 0)"
proof -
  have a: "collectProjectMetrics collector up ''A'' (Return None, 0)"
    by (rule leaf_run [OF assms(1) assms(3)])
  have b: "collectProjectMetrics collector up ''B'' (Return None, 0)"
    by (rule leaf_run [OF assms(2) assms(3)])
  have "joinTasks collector up 0 [] 0 (Return None, 0)"
    using wait_returns [of collector up "[]" 0] by simp
  then have j1: "joinTasks collector up (1 - 1) (remove1 ''B'' [''B'']) (0 + 0) (Return None, 0)"
    by simp
  have m1: "''B'' \<in> set [''B'']" by simp
  have p1: "(0::int) < 1" by simp
  from task_done [OF m1 b p1 j1]
  have j2: "joinTasks collector up (2 - 1) (remove1 ''A'' [''A'', ''B'']) (0 + 0) (Return None, 0)"
    by simp
  have m2: "''A'' \<in> set [''A'', ''B'']" by simp
  have p2: "(0::int) < 2" by simp
  from task_done [OF m2 a p2 j2] show ?thesis .
qed

lemma wrapped_count_run:
  "collectProjectMetrics collector (twoLeaves 4294967298) ''_Root'' (Return None, 0)"
proof -
  have "snd (projectStep collector (twoLeaves 4294967298) ''_Root'') = Joins 2 [''A'', ''B'']"
    using twoLeaves_root [of 4294967298 collector] by (simp add: counter32_wrapped)
  then show ?thesis
    by (rule joins) (rule two_tasks_join [OF twoLeaves_leaf(1,2) twoLeaves_leaf(3)])
qed







text \<open>
  C8, as the claim states it, fails. With a count of 1 and two entries the wait
  returns once the first goroutine is done and the call returns \<open>nil\<close>, leaving the
  second goroutine behind; with a count of \<open>2^32 + 2\<close> and two entries the counter is 2
  and the call returns with nothing left behind.
\<close>

theorem join_barrier_counterexample:
  "collectProjectMetrics NewTeamCityCollector (twoLeaves 1) ''_Root'' (Return None, 1)
   \<and> GetByID (twoLeaves 1) ''_Root''
       = Some \<lparr> p_ID = ''_Root'', ChildProjects_Count = 1,
                 ChildProjects_Items = [''A'', ''B''], BuildTypes_Count = 0 \<rparr>
   \<and> collectProjectMetrics NewTeamCityCollector (twoLeaves 4294967298) ''_Root'' (Return None, 0)
   \<and> GetByID (twoLeaves 4294967298) ''_Root''
       = Some \<lparr> p_ID = ''_Root'', ChildProjects_Count = 4294967298,
                 ChildProjects_Items = [''A'', ''B''], BuildTypes_Count = 0 \<rparr>"
  using short_count_run [of NewTeamCityCollector] wrapped_count_run [of NewTeamCityCollector]
  by (simp add: twoLeaves_def)

text \<open>
  C6. When the build-list request of a project is answered with status 404, the build
  collector sends no sample and returns no error; the traversal step of that project
  then goes on to its join over the child projects (the counter being non-negative)
  with no build event and no error in between, and the call ends as its join does.
\<close>

theorem not_found_yields_no_builds:
  "collectProjectBuildMetrics collector (Response 404 b) ident = ([], Return None)
   \<and> (GetByID up ident = Some p \<and> buildsOf up (p_ID p) = Response 404 b
        \<and> 0 \<le> counter32 (ChildProjects_Count p)
      \<longrightarrow> projectStep collector up ident
          = ([LogInfo (Some ident) ''collecting project'',
              LogDebug (Some ident) ''setting project count metric'',
              Send (MustNewConstMetric (projects collector)
                      (float64 (ChildProjects_Count p)) [p_ID p]),
              LogDebug (Some ident) ''setting build type count metric'',
              Send (MustNewConstMetric (buildTypes collector)
                      (float64 (BuildTypes_Count p)) [p_ID p]),
              LogDebug (Some ident) ''waiting for project collection''],
             Joins (counter32 (ChildProjects_Count p)) (ChildProjects_Items p))
        \<and> (\<forall>r. collectProjectMetrics collector up ident r
               = joinTasks collector up (counter32 (ChildProjects_Count p))
                   (ChildProjects_Items p) 0 r))"
proof (intro conjI impI allI)
  show "collectProjectBuildMetrics collector (Response 404 b) ident = ([], Return None)"
    by (simp add: collectProjectBuildMetrics_def)
next
  assume h: "GetByID up ident = Some p \<and> buildsOf up (p_ID p) = Response 404 b
        \<and> 0 \<le> counter32 (ChildProjects_Count p)"
  then show s: "projectStep collector up ident
          = ([LogInfo (Some ident) ''collecting project'',
              LogDebug (Some ident) ''setting project count metric'',
              Send (MustNewConstMetric (projects collector)
                      (float64 (ChildProjects_Count p)) [p_ID p]),
              LogDebug (Some ident) ''setting build type count metric'',
              Send (MustNewConstMetric (buildTypes collector)
                      (float64 (BuildTypes_Count p)) [p_ID p]),
              LogDebug (Some ident) ''waiting for project collection''],
             Joins (counter32 (ChildProjects_Count p)) (ChildProjects_Items p))"
    by (simp add: projectStep_def collectProjectBuildMetrics_def Let_def)
  fix r
  show "collectProjectMetrics collector up ident r
               = joinTasks collector up (counter32 (ChildProjects_Count p))
                   (ChildProjects_Items p) 0 r"
  proof
    assume "collectProjectMetrics collector up ident r"
    then show "joinTasks collector up (counter32 (ChildProjects_Count p))
                   (ChildProjects_Items p) 0 r"
      using s by (cases rule: collectProjectMetrics.cases) simp_all
  next
    assume "joinTasks collector up (counter32 (ChildProjects_Count p))
                   (ChildProjects_Items p) 0 r"
    with s show "collectProjectMetrics collector up ident r"
      by (intro joins [where counter = "counter32 (ChildProjects_Count p)"
            and items = "ChildProjects_Items p"]) simp_all
  qed
qed

theorem not_found_yields_no_builds_witness:
  "GetByID smallTree ''A'' = Some (leaf ''A'')
   \<and> buildsOf smallTree (p_ID (leaf ''A'')) = Response 404 Unreadable
   \<and> projectStep NewTeamCityCollector smallTree ''A''
      = ([LogInfo (Some ''A'') ''collecting project'',
          LogDebug (Some ''A'') ''setting project count metric'',
          Send (MustNewConstMetric (projects NewTeamCityCollector) 0 [''A'']),
          LogDebug (Some ''A'') ''setting build type count metric'',
          Send (MustNewConstMetric (buildTypes NewTeamCityCollector) 0 [''A'']),
          LogDebug (Some ''A'') ''waiting for project collection''], Joins 0 [])
   \<and> collectProjectMetrics NewTeamCityCollector smallTree ''A'' (Return None, 0)"
proof -
  have h: "GetByID smallTree ''A'' = Some (leaf ''A'')
       \<and> buildsOf smallTree (p_ID (leaf ''A'')) = Response 404 Unreadable
       \<and> 0 \<le> counter32 (ChildProjects_Count (leaf ''A''))"
    by (simp add: smallTree_def leaf_def counter32_small)
  have j: "joinTasks NewTeamCityCollector smallTree 0 [] 0 (Return None, 0)"
    using wait_returns [of NewTeamCityCollector smallTree "[]" 0] by simp
  show ?thesis
    using not_found_yields_no_builds
      [where collector = NewTeamCityCollector and b = Unreadable and up = smallTree
         and ident = "''A''" and p = "leaf ''A''",
        THEN conjunct2, rule_format, OF h] h j
    by (simp add: leaf_def counter32_small float64_0)
qed


subsection \<open>The calendar\<close>

lemma daysBefore_simps:
  "daysBefore 0 = 0" "daysBefore 1 = 31" "daysBefore 2 = 59" "daysBefore 3 = 90"
  "daysBefore 4 = 120" "daysBefore 5 = 151" "daysBefore 6 = 181" "daysBefore 7 = 212"
  "daysBefore 8 = 243" "daysBefore 9 = 273" "daysBefore 10 = 304" "daysBefore 11 = 334"
  "daysBefore 12 = 365"
  by (simp_all add: daysBefore_def)

text \<open>The month and day computed from a day of the year are that day of the year.\<close>

lemma monthDay_correct:
  assumes "0 \<le> yday" and "yday < (if isLeap year then 366 else 365)"
    and "monthDay year yday = (m, dd)"
  shows "1 \<le> m \<and> m \<le> 12 \<and> 1 \<le> dd \<and> dd \<le> daysIn m year
     \<and> daysBefore (m - 1) + (if isLeap year \<and> 3 \<le> m then 1 else 0) + (dd - 1) = yday"
proof (cases "isLeap year \<and> yday = 59")
  case True
  with assms show ?thesis
    by (simp add: monthDay_def daysIn_def daysBefore_simps)
next
  case False
  define day where "day = (if isLeap year \<and> yday > 59 then yday - 1 else yday)"
  have r: "0 \<le> day" "day < 365"
    using assms(1,2) False by (auto simp: day_def split: if_splits)
  define k where "k = day div 31"
  have "0 \<le> k" "k \<le> 11" using r by (auto simp: k_def)
  then have "k \<in> {0,1,2,3,4,5,6,7,8,9,10,11}" by simp arith
  moreover have kk: "31 * k \<le> day" "day < 31 * k + 31" by (auto simp: k_def)
  moreover have "monthDay year yday
      = (if day \<ge> daysBefore (k + 1) then (k + 2, day - daysBefore (k + 1) + 1)
         else (k + 1, day - daysBefore k + 1))"
    using False unfolding monthDay_def Let_def day_def k_def by auto
  then have md: "(m, dd)
      = (if day \<ge> daysBefore (k + 1) then (k + 2, day - daysBefore (k + 1) + 1)
         else (k + 1, day - daysBefore k + 1))"
    using assms(3) by simp
  ultimately show ?thesis
    using r False
    by (elim insertE emptyE; simp add: daysBefore_simps daysIn_def day_def split: if_splits)
qed

lemma div_bounds:
  fixes x k :: int
  assumes "0 < k"
  shows "k * (x div k) \<le> x" and "x < k * (x div k) + k"
proof -
  have "x = k * (x div k) + x mod k" by simp
  moreover have "0 \<le> x mod k" "x mod k < k" using assms by simp_all
  ultimately show "k * (x div k) \<le> x" and "x < k * (x div k) + k" by linarith+
qed

text \<open>
  The year and the day of the year \<^verbatim>\<open>absDate\<close> cuts a day count into add up to
  that day count, and the day of the year lies within the year.
\<close>

lemma absDate_year:
  "\<exists>year yday. absDate d = (year, monthDay year yday) \<and> 0 \<le> yday
      \<and> yday < (if isLeap year then 366 else 365) \<and> daysBeforeYear year + yday = d"
proof -
  define n400 where "n400 = d div 146097"
  define d1 where "d1 = d - 146097 * n400"
  define c where "c = d1 div 36524"
  define c4 where "c4 = c div 4"
  define n100 where "n100 = c - c4"
  define d2 where "d2 = d1 - 36524 * n100"
  define n4 where "n4 = d2 div 1461"
  define d3 where "d3 = d2 - 1461 * n4"
  define y where "y = d3 div 365"
  define y4 where "y4 = y div 4"
  define n1 where "n1 = y - y4"
  define yday where "yday = d3 - 365 * n1"
  define A where "A = 100 * n400 + 25 * n100 + n4"
  define Y where "Y = 400 * n400 + 100 * n100 + 4 * n4 + n1"
  have a: "absDate d = (Y + 1, monthDay (Y + 1) yday)"
    unfolding absDate_def Let_def Y_def yday_def n1_def y4_def y_def d3_def n4_def d2_def n100_def
      c4_def c_def d1_def n400_def by simp
  have b1: "0 \<le> d1" "d1 < 146097"
    using div_bounds [of 146097 d] unfolding d1_def n400_def by linarith+
  have bc: "36524 * c \<le> d1" "d1 < 36524 * c + 36524"
    using div_bounds [of 36524 d1] unfolding c_def by linarith+
  have bc': "0 \<le> c" "c \<le> 4" using b1 bc by linarith+
  have bc4: "4 * c4 \<le> c" "c < 4 * c4 + 4"
    using div_bounds [of 4 c] unfolding c4_def by linarith+
  have b100: "0 \<le> n100" "n100 \<le> 3" using bc' bc4 unfolding n100_def by linarith+
  have c3: "c \<le> 3 \<Longrightarrow> n100 = c" using bc' bc4 unfolding n100_def by linarith
  have c4: "c = 4 \<Longrightarrow> n100 = 3" using bc4 unfolding n100_def by linarith
  have b2: "0 \<le> d2" "d2 \<le> 36524"
    using b1 bc bc' c3 c4 unfolding d2_def by (cases "c = 4"; simp; linarith)+
  have b2': "n100 < 3 \<Longrightarrow> d2 < 36524"
    using bc bc' c3 c4 unfolding d2_def by (cases "c = 4"; simp; linarith)
  have b4: "1461 * n4 \<le> d2" "d2 < 1461 * n4 + 1461"
    using div_bounds [of 1461 d2] unfolding n4_def by linarith+
  have b4': "0 \<le> n4" "n4 \<le> 24" using b2 b4 by linarith+
  have b3: "0 \<le> d3" "d3 < 1461" using b4 unfolding d3_def by linarith+
  have b3'': "n4 = 24 \<Longrightarrow> n100 < 3 \<Longrightarrow> d3 < 1460" using b2' unfolding d3_def by linarith
  have yb: "365 * y \<le> d3" "d3 < 365 * y + 365"
    using div_bounds [of 365 d3] unfolding y_def by linarith+
  have yb': "0 \<le> y" "y \<le> 4" using b3 yb by linarith+
  have yq: "4 * y4 \<le> y" "y < 4 * y4 + 4"
    using div_bounds [of 4 y] unfolding y4_def by linarith+
  have b1': "0 \<le> n1" "n1 \<le> 3" using yb' yq unfolding n1_def by linarith+
  have y3: "y \<le> 3 \<Longrightarrow> n1 = y" using yb' yq unfolding n1_def by linarith
  have y4: "y = 4 \<Longrightarrow> n1 = 3" using yq unfolding n1_def by linarith
  have bd: "0 \<le> yday" "yday \<le> 365"
    using b3 yb yb' y3 y4 unfolding yday_def by (cases "y = 4"; simp; linarith)+
  have bd1: "n1 < 3 \<Longrightarrow> yday < 365"
    using yb yb' y3 y4 unfolding yday_def by (cases "y = 4"; simp; linarith)
  have bd2: "n4 = 24 \<Longrightarrow> n100 < 3 \<Longrightarrow> yday < 365"
    using b3'' yb yb' y3 y4 unfolding yday_def by (cases "y = 4"; simp; linarith)
  have YA: "Y = 4 * A + n1" unfolding Y_def A_def by simp
  have q4: "Y div 4 = A"
    using div_bounds [of 4 Y] b1' unfolding YA by linarith
  have q100: "Y div 100 = 4 * n400 + n100"
    using div_bounds [of 100 Y] b1' b4' unfolding Y_def by linarith
  have q400: "Y div 400 = n400"
    using div_bounds [of 400 Y] b1' b4' b100 unfolding Y_def by linarith
  have days: "daysBeforeYear (Y + 1) + yday = d"
    unfolding daysBeforeYear_def using q4 q100 q400
    by (simp add: Y_def A_def yday_def d3_def d2_def d1_def)
  have l4: "((Y + 1) mod 4 = 0) = (n1 = 3)"
  proof (cases "n1 = 3")
    case True
    then have "Y + 1 = 4 * (A + 1)" unfolding YA by simp
    then show ?thesis using True by simp
  next
    case False
    have "(Y + 1) mod 4 = n1 + 1"
      using b1' False unfolding YA by (intro int_mod_pos_eq [where q = A]) auto
    then show ?thesis using False b1' by simp
  qed
  have l100: "((Y + 1) mod 100 = 0) = (n1 = 3 \<and> n4 = 24)"
  proof (cases "n1 = 3 \<and> n4 = 24")
    case True
    then have "Y + 1 = 100 * (4 * n400 + n100 + 1)" unfolding Y_def by simp
    then show ?thesis using True by simp
  next
    case False
    have "(Y + 1) mod 100 = 4 * n4 + n1 + 1"
      using b1' b4' False unfolding Y_def
      by (intro int_mod_pos_eq [where q = "4 * n400 + n100"]) auto
    then show ?thesis using False b1' b4' by simp
  qed
  have l400: "((Y + 1) mod 400 = 0) = (n1 = 3 \<and> n4 = 24 \<and> n100 = 3)"
  proof (cases "n1 = 3 \<and> n4 = 24 \<and> n100 = 3")
    case True
    then have "Y + 1 = 400 * (n400 + 1)" unfolding Y_def by simp
    then show ?thesis using True by simp
  next
    case False
    have "(Y + 1) mod 400 = 100 * n100 + 4 * n4 + n1 + 1"
      using b1' b4' b100 False unfolding Y_def
      by (intro int_mod_pos_eq [where q = n400]) auto
    then show ?thesis using False b1' b4' b100 by simp
  qed
  have leap: "isLeap (Y + 1) = (n1 = 3 \<and> (n4 \<noteq> 24 \<or> n100 = 3))"
    unfolding isLeap_def l4 l100 l400 by auto
  have "yday < (if isLeap (Y + 1) then 366 else 365)"
    using bd bd1 bd2 b100 b1' unfolding leap by (auto; linarith)
  with a bd days show ?thesis by blast
qed

subsection \<open>Digits written and digits read\<close>

lemma dc_code: "n < 10 \<Longrightarrow> (of_char (dc n) :: nat) = 48 + n"
  by (simp add: dc_def)

lemma dc_digit: "n < 10 \<Longrightarrow> digitChar (dc n)"
  by (simp add: digitChar_def dc_code)

lemma dc_val: "n < 10 \<Longrightarrow> digitVal (dc n) = int n"
  by (simp add: digitVal_def dc_code)

lemma dc_neq:
  assumes "n < 10" and "(of_char c :: nat) < 48"
  shows "dc n \<noteq> c"
proof
  assume "dc n = c"
  then have "(of_char (dc n) :: nat) = of_char c" by simp
  with assms show False by (simp add: dc_code)
qed

lemma dc_not_special:
  assumes "n < 10"
  shows "dc n \<noteq> CHR ''-''" "dc n \<noteq> CHR ''+''" "dc n \<noteq> quote" "\<not> commaOrPeriod (dc n)"
  using assms by (auto simp: quote_def commaOrPeriod_def dest!: dc_neq [THEN notE])

lemma utoa_lt_10: "n < 10 \<Longrightarrow> utoa n = [dc n]"
  by (simp add: utoa.simps dc_def)

lemma utoa_lt_100: "10 \<le> n \<Longrightarrow> n < 100 \<Longrightarrow> utoa n = [dc (n div 10), dc (n mod 10)]"
  by (subst utoa.simps) (simp add: utoa_lt_10 dc_def)

lemma utoa_lt_1000:
  "100 \<le> n \<Longrightarrow> n < 1000 \<Longrightarrow> utoa n = [dc (n div 100), dc (n div 10 mod 10), dc (n mod 10)]"
  by (subst utoa.simps) (simp add: utoa_lt_100 dc_def div_mult2_eq [symmetric])

lemma utoa_lt_10000:
  "1000 \<le> n \<Longrightarrow> n < 10000 \<Longrightarrow>
     utoa n = [dc (n div 1000), dc (n div 100 mod 10), dc (n div 10 mod 10), dc (n mod 10)]"
  by (subst utoa.simps) (simp add: utoa_lt_1000 dc_def div_mult2_eq [symmetric])

lemma zero_char: "CHR ''0'' = dc 0"
  unfolding dc_def by code_simp

lemma replicate_small:
  "replicate 2 c = [c, c]" "replicate 3 c = [c, c, c]"
  by (simp_all add: numeral_2_eq_2 numeral_3_eq_3)

lemma appendInt_2:
  assumes "0 \<le> x" and "x < 100"
  shows "appendInt x 2 = [dc (nat x div 10), dc (nat x mod 10)]"
proof (cases "nat x < 10")
  case True
  then show ?thesis using assms by (simp add: appendInt_def utoa_lt_10 zero_char replicate_small)
next
  case False
  then show ?thesis using assms by (simp add: appendInt_def utoa_lt_100)
qed

lemma appendInt_4:
  assumes "0 \<le> x" and "x < 10000"
  shows "appendInt x 4
     = [dc (nat x div 1000), dc (nat x div 100 mod 10), dc (nat x div 10 mod 10), dc (nat x mod 10)]"
proof -
  consider "nat x < 10" | "10 \<le> nat x" "nat x < 100" | "100 \<le> nat x" "nat x < 1000"
    | "1000 \<le> nat x" "nat x < 10000"
    using assms by linarith
  then show ?thesis
  proof cases
    case 1
    then show ?thesis using assms by (simp add: appendInt_def utoa_lt_10 zero_char replicate_small)
  next
    case 2
    then show ?thesis using assms by (simp add: appendInt_def utoa_lt_100 zero_char replicate_small)
  next
    case 3
    then show ?thesis using assms by (simp add: appendInt_def utoa_lt_1000 zero_char)
  next
    case 4
    then show ?thesis using assms by (simp add: appendInt_def utoa_lt_10000)
  qed
qed

lemma getnum_digits:
  assumes "a < 10" and "b < 10"
  shows "getnum (dc a # dc b # rest) fixed = Some (int a * 10 + int b, rest)"
  using assms by (simp add: getnum_def isDigit_def dc_digit dc_val)

lemma atoi_2:
  assumes "a < 10" and "b < 10"
  shows "atoi [dc a, dc b] = Some (int a * 10 + int b)"
  using assms by (simp add: atoi_def dc_not_special dc_digit dc_val)

lemma atoi_4:
  assumes "a < 10" and "b < 10" and "c < 10" and "d < 10"
  shows "atoi [dc a, dc b, dc c, dc d] = Some (int a * 1000 + int b * 100 + int c * 10 + int d)"
  using assms by (simp add: atoi_def dc_not_special dc_digit dc_val)

lemma parseLongYear_digits:
  assumes "a < 10" and "b < 10" and "c < 10" and "d < 10"
  shows "parseLongYear (dc a # dc b # dc c # dc d # rest)
     = Some (int a * 1000 + int b * 100 + int c * 10 + int d, rest)"
  using assms by (simp add: parseLongYear_def isDigit_def dc_digit atoi_4)

lemma parseNumTZ_digits:
  assumes "a < 10" and "b < 10" and "c < 10" and "d < 10" and "sg = CHR ''+'' \<or> sg = CHR ''-''"
  shows "parseNumTZ [sg, dc a, dc b, dc c, dc d]
     = Some ((if sg = CHR ''+'' then 1 else - 1)
               * (((int a * 10 + int b) * 60 + (int c * 10 + int d)) * 60), [])"
  using assms by (auto simp add: parseNumTZ_def atoi_2)

lemma parseZeroSecond_digits:
  assumes "a < 10" and "b < 10" and "int a * 10 + int b < 60" and "sg = CHR ''+'' \<or> sg = CHR ''-''"
  shows "parseZeroSecond (dc a # dc b # sg # rest) = Some (int a * 10 + int b, 0, sg # rest)"
  using assms by (auto simp add: parseZeroSecond_def getnum_digits commaOrPeriod_def)

lemma parseFields_digits:
  assumes d: "y1 < 10" "y2 < 10" "y3 < 10" "y4 < 10" "m1 < 10" "m2 < 10" "d1 < 10" "d2 < 10"
      "h1 < 10" "h2 < 10" "i1 < 10" "i2 < 10" "s1 < 10" "s2 < 10"
      "z1 < 10" "z2 < 10" "z3 < 10" "z4 < 10"
    and sg: "sg = CHR ''+'' \<or> sg = CHR ''-''"
    and year: "year = int y1 * 1000 + int y2 * 100 + int y3 * 10 + int y4"
    and month: "month = int m1 * 10 + int m2" "1 \<le> month" "month \<le> 12"
    and day: "day = int d1 * 10 + int d2" "1 \<le> day" "day \<le> daysIn month year"
    and hh: "hh = int h1 * 10 + int h2" "hh < 24"
    and mi: "mi = int i1 * 10 + int i2" "mi < 60"
    and ss: "ss = int s1 * 10 + int s2" "ss < 60"
    and off: "off = (if sg = CHR ''+'' then 1 else - 1)
                * (((int z1 * 10 + int z2) * 60 + (int z3 * 10 + int z4)) * 60)"
  shows "parseFields [dc y1, dc y2, dc y3, dc y4, dc m1, dc m2, dc d1, dc d2, CHR ''T'',
            dc h1, dc h2, dc i1, dc i2, dc s1, dc s2, sg, dc z1, dc z2, dc z3, dc z4]
         = Some (Date year month day hh mi ss 0 off)"
proof -
  have s: "parseZeroSecond [dc s1, dc s2, sg, dc z1, dc z2, dc z3, dc z4]
       = Some (ss, 0, [sg, dc z1, dc z2, dc z3, dc z4])"
    using parseZeroSecond_digits [OF d(13,14) _ sg] ss by simp
  have z: "parseNumTZ [sg, dc z1, dc z2, dc z3, dc z4] = Some (off, [])"
    using parseNumTZ_digits [OF d(15-18) sg] off by simp
  have o: "off \<noteq> - 1"
  proof
    assume "off = - 1"
    then have "off mod 60 = 59" by simp
    moreover have "off mod 60 = 0" unfolding off by simp
    ultimately show False by simp
  qed
  show ?thesis
    unfolding parseFields_def
    using d month day hh mi o
    by (simp add: parseLongYear_digits parseZeroMonth_def parseZeroDay_def getnum_digits skipT_def
        parseHour_def parseZeroMinute_def s z year [symmetric])
qed

lemma digits2:
  fixes n :: nat
  assumes "n < 100"
  shows "n div 10 < 10" "n mod 10 < 10" "int (n div 10) * 10 + int (n mod 10) = int n"
proof -
  show "n div 10 < 10" using assms by (simp add: less_mult_imp_div_less)
  show "n mod 10 < 10" by simp
  have "int (n div 10) * 10 + int (n mod 10) = int ((n div 10) * 10 + n mod 10)"
    by (simp only: of_nat_add of_nat_mult of_nat_numeral)
  also have "\<dots> = int n" by simp
  finally show "int (n div 10) * 10 + int (n mod 10) = int n" .
qed

lemma digits4:
  fixes n :: nat
  assumes "n < 10000"
  shows "n div 1000 < 10" "n div 100 mod 10 < 10" "n div 10 mod 10 < 10" "n mod 10 < 10"
    "int (n div 1000) * 1000 + int (n div 100 mod 10) * 100 + int (n div 10 mod 10) * 10
       + int (n mod 10) = int n"
proof -
  show "n div 1000 < 10" using assms by (simp add: less_mult_imp_div_less)
  show "n div 100 mod 10 < 10" "n div 10 mod 10 < 10" "n mod 10 < 10" by simp_all
  have a: "n = (n div 10) * 10 + n mod 10" by simp
  have "n div 10 = (n div 10 div 10) * 10 + n div 10 mod 10" by simp
  then have b: "n div 10 = (n div 100) * 10 + n div 10 mod 10"
    by (simp add: div_mult2_eq [symmetric])
  have "n div 100 = (n div 100 div 10) * 10 + n div 100 mod 10" by simp
  then have c: "n div 100 = (n div 1000) * 10 + n div 100 mod 10"
    by (simp add: div_mult2_eq [symmetric])
  have d: "(n div 1000) * 1000 + (n div 100 mod 10) * 100 + (n div 10 mod 10) * 10 + n mod 10 = n"
    using a b c by linarith
  have "int (n div 1000) * 1000 + int (n div 100 mod 10) * 100 + int (n div 10 mod 10) * 10
       + int (n mod 10)
     = int ((n div 1000) * 1000 + (n div 100 mod 10) * 100 + (n div 10 mod 10) * 10 + n mod 10)"
    by (simp only: of_nat_add of_nat_mult of_nat_numeral)
  also have "\<dots> = int n" by (simp only: d)
  finally show "int (n div 1000) * 1000 + int (n div 100 mod 10) * 100 + int (n div 10 mod 10) * 10
       + int (n mod 10) = int n" .
qed

lemma formatNumTZ_digits:
  assumes "off mod 60 = 0" and "\<bar>off\<bar> < 360000"
  shows "\<exists>sg z1 z2 z3 z4. formatNumTZ off = [sg, dc z1, dc z2, dc z3, dc z4]
     \<and> z1 < 10 \<and> z2 < 10 \<and> z3 < 10 \<and> z4 < 10 \<and> (sg = CHR ''+'' \<or> sg = CHR ''-'')
     \<and> off = (if sg = CHR ''+'' then 1 else - 1)
                * (((int z1 * 10 + int z2) * 60 + (int z3 * 10 + int z4)) * 60)"
proof -
  from assms(1) obtain zone where zo: "off = 60 * zone" by (auto simp: mod_eq_0_iff_dvd)
  have "(- off) div 60 = - (off div 60)"
    using assms(1) by (simp add: zdiv_zminus1_eq_if)
  moreover have "off div 60 = zone" unfolding zo by simp
  ultimately have zone: "(if off < 0 then - ((- off) div 60) else off div 60) = zone"
    by simp
  define z where "z = \<bar>zone\<bar>"
  define sg where "sg = (if zone < 0 then CHR ''-'' else CHR ''+'')"
  have zb: "0 \<le> z" "z < 6000" using assms(2) unfolding z_def zo by linarith+
  have h: "0 \<le> z div 60" "z div 60 < 100" "0 \<le> z mod 60" "z mod 60 < 100"
    using zb by simp_all
  define zh where "zh = nat (z div 60)"
  define zm where "zm = nat (z mod 60)"
  have zz: "int zh * 60 + int zm = z" using h by (simp add: zh_def zm_def)
  have lt: "zh < 100" "zm < 100" using h unfolding zh_def zm_def by linarith+
  have "formatNumTZ off = (if zone < 0 then ''-'' else ''+'') @ appendInt (z div 60) 2 @ appendInt (z mod 60) 2"
    unfolding formatNumTZ_def Let_def zone z_def by (rule refl)
  then have f: "formatNumTZ off = [sg, dc (zh div 10), dc (zh mod 10), dc (zm div 10), dc (zm mod 10)]"
    unfolding appendInt_2 [OF h(1,2)] appendInt_2 [OF h(3,4)] zh_def [symmetric] zm_def [symmetric]
    by (simp add: sg_def)
  have sgc: "sg = CHR ''+'' \<or> sg = CHR ''-''" by (simp add: sg_def)
  have sgs: "(if sg = CHR ''+'' then 1 else - 1) * z = zone"
    unfolding sg_def z_def by simp
  have v: "off = (if sg = CHR ''+'' then 1 else - 1)
        * (((int (zh div 10) * 10 + int (zh mod 10)) * 60 + (int (zm div 10) * 10 + int (zm mod 10))) * 60)"
    unfolding digits2(3) [OF lt(1)] digits2(3) [OF lt(2)] zz zo using sgs by simp
  from f digits2(1,2) [OF lt(1)] digits2(1,2) [OF lt(2)] sgc v show ?thesis by blast
qed

lemma daysIn_le_31:
  assumes "1 \<le> m" and "m \<le> 12"
  shows "daysIn m year \<le> 31"
proof -
  have "m \<in> {1,2,3,4,5,6,7,8,9,10,11,12}" using assms by simp arith
  then show ?thesis
    by (elim insertE emptyE; simp add: daysIn_def daysBefore_simps)
qed

lemma Trim_quoted:
  assumes "c \<noteq> quote" and "e \<noteq> quote"
  shows "Trim (quote # c # ms @ [e] @ [quote]) [quote] = c # ms @ [e]"
    and "Trim (c # ms @ [e]) [quote] = c # ms @ [e]"
  using assms by (simp_all add: Trim_def)

lemma clock_fields:
  fixes secs :: int
  assumes "0 \<le> secs" and "secs < 86400"
  shows "0 \<le> secs div 3600" "secs div 3600 < 24" "0 \<le> secs mod 3600 div 60"
    "secs mod 3600 div 60 < 60" "0 \<le> secs mod 60" "secs mod 60 < 60"
    "secs div 3600 * 3600 + secs mod 3600 div 60 * 60 + secs mod 60 = secs"
proof -
  show "0 \<le> secs div 3600" "secs div 3600 < 24" using assms by simp_all
  show "0 \<le> secs mod 3600 div 60" "secs mod 3600 div 60 < 60" by simp_all
  show "0 \<le> secs mod 60" "secs mod 60 < 60" by simp_all
  have "secs mod 3600 mod 60 = secs mod 60"
    by (rule mod_mod_cancel) simp
  then have "secs mod 3600 = secs mod 3600 div 60 * 60 + secs mod 60"
    using div_mult_mod_eq [of "secs mod 3600" 60] by simp
  then show "secs div 3600 * 3600 + secs mod 3600 div 60 * 60 + secs mod 60 = secs"
    using div_mult_mod_eq [of secs 3600] by linarith
qed

lemma parseFields_numbers:
  assumes lt: "yn < 10000" "mn < 100" "dn < 100" "hn < 100" "mi < 100" "sn < 100"
    and zd: "z1 < 10" "z2 < 10" "z3 < 10" "z4 < 10"
    and sg: "sg = CHR ''+'' \<or> sg = CHR ''-''"
    and month: "1 \<le> int mn" "int mn \<le> 12"
    and day: "1 \<le> int dn" "int dn \<le> daysIn (int mn) (int yn)"
    and clock: "int hn < 24" "int mi < 60" "int sn < 60"
  shows "parseFields
      [dc (yn div 1000), dc (yn div 100 mod 10), dc (yn div 10 mod 10), dc (yn mod 10),
       dc (mn div 10), dc (mn mod 10), dc (dn div 10), dc (dn mod 10), CHR ''T'',
       dc (hn div 10), dc (hn mod 10), dc (mi div 10), dc (mi mod 10),
       dc (sn div 10), dc (sn mod 10), sg, dc z1, dc z2, dc z3, dc z4]
     = Some (Date (int yn) (int mn) (int dn) (int hn) (int mi) (int sn) 0
         ((if sg = CHR ''+'' then 1 else - 1)
            * (((int z1 * 10 + int z2) * 60 + (int z3 * 10 + int z4)) * 60)))"
  by (rule parseFields_digits [OF digits4(1-4) [OF lt(1)] digits2(1,2) [OF lt(2)]
        digits2(1,2) [OF lt(3)] digits2(1,2) [OF lt(4)] digits2(1,2) [OF lt(5)]
        digits2(1,2) [OF lt(6)] zd sg digits4(5) [OF lt(1), symmetric]
        digits2(3) [OF lt(2), symmetric] month digits2(3) [OF lt(3), symmetric] day
        digits2(3) [OF lt(4), symmetric] clock(1) digits2(3) [OF lt(5), symmetric] clock(2)
        digits2(3) [OF lt(6), symmetric] clock(3) refl])

subsection \<open>The round trip\<close>

text \<open>
  C5, as amended. For every instant at whole-second precision whose year in its zone
  is within 0 to 9999 and whose zone offset is a whole number of minutes of less than a
  hundred hours, formatting the instant in the layout \<^verbatim>\<open>20060102T150405-0700\<close> and
  decoding the result with \<^verbatim>\<open>UnmarshalJSON\<close>, in quotes or bare, gives the instant back
  (the same second, the same offset) and no error.
\<close>

theorem format_then_decode:
  assumes ns: "nanos t = 0" and y0: "0 \<le> Year t" and y9: "Year t \<le> 9999"
    and om: "offsetSec t mod 60 = 0" and ob: "\<bar>offsetSec t\<bar> < 360000"
  shows "UnmarshalJSON (quote # Format t @ [quote]) = (t, None) \<and> UnmarshalJSON (Format t) = (t, None)"
proof -
  define a where "a = localAbs t"
  define d where "d = a div 86400"
  define secs where "secs = a mod 86400"
  obtain year yday where ad: "absDate d = (year, monthDay year yday)" and yd: "0 \<le> yday"
      "yday < (if isLeap year then 366 else 365)" and days: "daysBeforeYear year + yday = d"
    using absDate_year [of d] by blast
  obtain m dd where md: "monthDay year yday = (m, dd)" by (cases "monthDay year yday")
  from monthDay_correct [OF yd md]
  have mr: "1 \<le> m" "m \<le> 12" and dr: "1 \<le> dd" "dd \<le> daysIn m year"
    and yday: "daysBefore (m - 1) + (if isLeap year \<and> 3 \<le> m then 1 else 0) + (dd - 1) = yday"
    by simp_all
  have yr: "0 \<le> year" "year < 10000"
    using y0 y9 ad unfolding Year_def a_def [symmetric] d_def [symmetric] by simp_all
  have sb: "0 \<le> secs" "secs < 86400" unfolding secs_def by simp_all
  note cf = clock_fields [OF sb]
  define yn where "yn = nat year"
  define mn where "mn = nat m"
  define dn where "dn = nat dd"
  define hn where "hn = nat (secs div 3600)"
  define mi where "mi = nat (secs mod 3600 div 60)"
  define sn where "sn = nat (secs mod 60)"
  have dl: "dd < 100" using dr(2) daysIn_le_31 [OF mr, of year] by linarith
  have lts: "yn < 10000" "mn < 100" "dn < 100" "hn < 100" "mi < 100" "sn < 100"
    using yr mr dl cf unfolding yn_def mn_def dn_def hn_def mi_def sn_def by linarith+
  have bk: "int yn = year" "int mn = m" "int dn = dd" "int hn = secs div 3600"
    "int mi = secs mod 3600 div 60" "int sn = secs mod 60"
    using yr mr dr cf unfolding yn_def mn_def dn_def hn_def mi_def sn_def by simp_all
  obtain sg z1 z2 z3 z4 where tz: "formatNumTZ (offsetSec t) = [sg, dc z1, dc z2, dc z3, dc z4]"
      and zd: "z1 < 10" "z2 < 10" "z3 < 10" "z4 < 10" and sg: "sg = CHR ''+'' \<or> sg = CHR ''-''"
      and off: "offsetSec t = (if sg = CHR ''+'' then 1 else - 1)
                * (((int z1 * 10 + int z2) * 60 + (int z3 * 10 + int z4)) * 60)"
    using formatNumTZ_digits [OF om ob] by blast
  have fmt: "Format t =
      [dc (yn div 1000), dc (yn div 100 mod 10), dc (yn div 10 mod 10), dc (yn mod 10),
       dc (mn div 10), dc (mn mod 10), dc (dn div 10), dc (dn mod 10), CHR ''T'',
       dc (hn div 10), dc (hn mod 10), dc (mi div 10), dc (mi mod 10),
       dc (sn div 10), dc (sn mod 10), sg, dc z1, dc z2, dc z3, dc z4]"
    unfolding Format_def Let_def a_def [symmetric] d_def [symmetric] secs_def [symmetric] ad md
    using appendInt_4 [OF yr] appendInt_2 [of m] appendInt_2 [of dd] appendInt_2 [OF cf(1)]
      appendInt_2 [OF cf(3)] appendInt_2 [OF cf(5)] mr dr dl cf(2,4,6) tz
    by (simp add: yn_def mn_def dn_def hn_def mi_def sn_def)
  have unix: "daysSinceUnixEpoch year m dd * 86400 + secs div 3600 * 3600
        + secs mod 3600 div 60 * 60 + secs mod 60 - offsetSec t = unixSec t"
  proof -
    have "daysSinceUnixEpoch year m dd = d - 719162"
      unfolding daysSinceUnixEpoch_def using yday days by simp
    moreover have "d * 86400 + secs = a" unfolding d_def secs_def by simp
    ultimately show ?thesis using cf(7) unfolding a_def localAbs_def by simp
  qed
  have "parseFields (Format t) = Some (Date (int yn) (int mn) (int dn) (int hn) (int mi) (int sn) 0
          (offsetSec t))"
    unfolding fmt off
    by (rule parseFields_numbers [OF lts zd sg]) (use bk mr dr cf(2,4,6) in simp_all)
  then have "parseFields (Format t) = Some (Date year m dd (secs div 3600) (secs mod 3600 div 60)
          (secs mod 60) 0 (offsetSec t))"
    unfolding bk .
  also have "Date year m dd (secs div 3600) (secs mod 3600 div 60) (secs mod 60) 0 (offsetSec t) = t"
    unfolding Date_def using unix ns by simp
  finally have p: "time_Parse (Format t) = (t, None)" by (simp add: time_Parse_def)
  have q: "dc (yn div 1000) \<noteq> quote" "dc z4 \<noteq> quote"
    using dc_not_special(3) digits4(1) [OF lts(1)] zd(4) by simp_all
  have "Trim (quote # Format t @ [quote]) [quote] = Format t" "Trim (Format t) [quote] = Format t"
    unfolding fmt using q by (simp_all add: Trim_def)
  then show ?thesis using p by (simp add: UnmarshalJSON_def)
qed


end
